theory Spec2Isabelle
  imports Main "HOL-Library.Word"
begin

section \<open>M4 sensor hub: panic registry and panic recovery (m4sensorhub_panic)\<close>

text \<open>
  Conventions of the embedding.
  \<^item> A C pointer to memory that the model does not look into is an address, a natural
    number; \<open>0\<close> is \<open>NULL\<close>. A function pointer is an address as well.
  \<^item> A pointer that the code dereferences is an option of what it points to, \<open>None\<close> for
    \<open>NULL\<close>: the hub pointer \<open>m4sensorhub\<close>, \<open>m4sensorhub->panicdata\<close>,
    \<open>m4sensorhub->pdev\<close> and \<open>m4sensorhub->i2c_client\<close>.
  \<^item> Dereferencing \<open>NULL\<close>, and calling through a \<open>NULL\<close> function pointer, is the fault
    \<open>NullDeref\<close>; the run ends there.
  \<^item> \<open>BUG()\<close> does not return: a run that reaches it ends there, with the outcome
    \<open>Halted\<close>.
  \<^item> Functions that are not part of these source files (the I2C transfer, the bus access
    lock, the platform reset hook, the firmware loaders, \<open>m4sensorhub_irq_init\<close>,
    \<open>msleep\<close>, \<open>dump_stack\<close>) are recorded as events, in the order in which the code calls
    them; what they return is a parameter of the model, and what they do to the records of
    this module is outside the model.
  \<^item> A panic callback is client code that is handed the hub pointer, and
    \<open>m4sensorhub_panic_process\<close> reads the hub again after each callback: what a callback
    does to the hub record is the parameter \<open>cb\<close>, and callbacks return.
  \<^item> \<open>KDEBUG\<close> logging is left out.
  \<^item> The functions are modelled as run by one thread from entry to exit; the mutex
    \<open>panicdata->lock\<close>, taken and released around the slot accesses of register and
    unregister, is free at entry and free at exit and is left out of the record.
\<close>

type_synonym ptr = nat
type_synonym fnptr = nat

datatype m4sensorhub_mode = UNINITIALIZED | BOOTMODE | NORMALMODE | FACTORYMODE

text \<open>\<open>enum m4sensorhub_panichdl_index\<close> of include/linux/m4sensorhub.h.\<close>

definition PANICHDL_DISPLAY_RESTORE :: nat where
  "PANICHDL_DISPLAY_RESTORE = 0"

definition PANICHDL_IRQ_RESTORE :: nat where
  "PANICHDL_IRQ_RESTORE = 1"

definition PANICHDL_MAX :: nat where
  "PANICHDL_MAX = PANICHDL_IRQ_RESTORE + 1"

definition EPERM :: int where "EPERM = 1"
definition ENOMEM :: int where "ENOMEM = 12"
definition EINVAL :: int where "EINVAL = 22"

definition PANIC_BANK :: "8 word" where "PANIC_BANK = 0xFF"
definition PANIC_CMD_CHECK :: "8 word" where "PANIC_CMD_CHECK = 0xCD"
definition PANIC_RESP_CHECK :: "32 word" where "PANIC_RESP_CHECK = 0xDEADBEEF"

record m4sensorhub_panic_callback =
  callback :: fnptr
  data :: ptr

text \<open>
  \<open>funcs[PANICHDL_MAX]\<close> is a table from the index to the slot; the code reads and writes
  it below \<open>PANICHDL_MAX\<close> only.
\<close>

record m4sensorhub_panicdata =
  funcs :: "nat \<Rightarrow> m4sensorhub_panic_callback"

text \<open>\<open>struct m4sensorhub_platform_data\<close>: the hooks of the board.\<close>

record m4sensorhub_platform_data =
  hw_init :: fnptr
  hw_free :: fnptr
  hw_reset :: fnptr
  set_bootmode :: fnptr
  stillmode_exit :: fnptr
  set_display_control :: fnptr

text \<open>Of \<open>struct i2c_client\<close> the code reads the bus address \<open>addr\<close>.\<close>

record i2c_client =
  addr :: "16 word"

text \<open>\<open>struct m4sensorhub_data\<close>, without the GPIO numbers of \<open>hwconfig\<close>.\<close>

record m4sensorhub_data =
  i2c_client :: "i2c_client option"
  irqdata :: ptr
  panicdata :: "m4sensorhub_panicdata option"
  mode :: m4sensorhub_mode
  pdev :: "m4sensorhub_platform_data option"
  filename :: ptr

datatype fault = NullDeref | BadPointer

text \<open>
  \<open>PanicCall i f h d\<close> is the call \<open>handler.callback(m4sensorhub, handler.data)\<close> for slot
  \<open>i\<close>: the function called, the hub it is handed, as it is at the call, and the context.
\<close>

datatype event =
    RegAccessLock
  | RegAccessUnlock
  | I2cWriteRead "8 word list" nat nat
  | HwReset
  | Msleep nat
  | LoadFirmware
  | Load401Firmware
  | Bug
  | PanicCall nat fnptr m4sensorhub_data ptr
  | IrqInit
  | InitCall fnptr ptr
  | DumpStack
  | Kfree ptr

datatype outcome = Returned | Halted | Faulted fault

text \<open>\<open>kzalloc\<close> gives zeroed memory: every slot is \<open>{NULL, NULL}\<close>.\<close>

definition zeroed_panicdata :: m4sensorhub_panicdata where
  "zeroed_panicdata = \<lparr>funcs = (\<lambda>_. \<lparr>callback = 0, data = 0\<rparr>)\<rparr>"

text \<open>
  \<open>m4sensorhub_panic_init\<close>; \<open>kzalloc_ok\<close> says whether the allocation succeeded.
\<close>

definition m4sensorhub_panic_init ::
  "bool \<Rightarrow> m4sensorhub_data \<Rightarrow> int \<times> m4sensorhub_data" where
  "m4sensorhub_panic_init kzalloc_ok m =
     (if kzalloc_ok then (0, m\<lparr>panicdata := Some zeroed_panicdata\<rparr>)
      else (- ENOMEM, m))"

definition m4sensorhub_panic_shutdown ::
  "m4sensorhub_data option \<Rightarrow> m4sensorhub_data option" where
  "m4sensorhub_panic_shutdown m4sensorhub =
     (case m4sensorhub of
        None \<Rightarrow> None
      | Some m \<Rightarrow>
          (case panicdata m of
             None \<Rightarrow> Some m
           | Some pd \<Rightarrow> Some (m\<lparr>panicdata := None\<rparr>)))"

definition m4sensorhub_panic_register ::
  "m4sensorhub_data option \<Rightarrow> nat \<Rightarrow> fnptr \<Rightarrow> ptr
     \<Rightarrow> fault + (int \<times> m4sensorhub_data option)" where
  "m4sensorhub_panic_register m4sensorhub index cb_func dat =
     (case m4sensorhub of
        None \<Rightarrow> Inr (- EINVAL, None)
      | Some m \<Rightarrow>
          if index \<ge> PANICHDL_MAX \<or> cb_func = 0 then Inr (- EINVAL, Some m)
          else
            (case panicdata m of
               None \<Rightarrow> Inl NullDeref
             | Some pd \<Rightarrow>
                 if callback (funcs pd index) = 0
                 then Inr (0, Some (m\<lparr>panicdata := Some (pd\<lparr>funcs :=
                        (funcs pd)(index := \<lparr>callback = cb_func, data = dat\<rparr>)\<rparr>)\<rparr>))
                 else Inr (- EPERM, Some m)))"

definition m4sensorhub_panic_unregister ::
  "m4sensorhub_data option \<Rightarrow> nat \<Rightarrow> fault + (int \<times> m4sensorhub_data option)" where
  "m4sensorhub_panic_unregister m4sensorhub index =
     (case m4sensorhub of
        None \<Rightarrow> Inr (- EINVAL, None)
      | Some m \<Rightarrow>
          if index \<ge> PANICHDL_MAX then Inr (- EINVAL, Some m)
          else
            (case panicdata m of
               None \<Rightarrow> Inl NullDeref
             | Some pd \<Rightarrow>
                 Inr (0, Some (m\<lparr>panicdata := Some (pd\<lparr>funcs :=
                        (funcs pd)(index := \<lparr>callback = 0, data = 0\<rparr>)\<rparr>)\<rparr>))))"

text \<open>
  The loop \<open>for (i = 0; i < PANICHDL_MAX; i++)\<close> at the end of
  \<open>m4sensorhub_panic_process\<close>, at the test of \<open>i\<close>, with the events so far in \<open>tr\<close> and
  the hub record as it is now. Each round reads \<open>m4sensorhub->panicdata\<close> and the slot
  \<open>funcs[i]\<close> from the hub as the callbacks before have left it; \<open>cb f h d\<close> is the hub
  record after the callback \<open>f\<close> has run with the hub \<open>h\<close> and the context \<open>d\<close>.
\<close>

function panic_handlers ::
  "(fnptr \<Rightarrow> m4sensorhub_data \<Rightarrow> ptr \<Rightarrow> m4sensorhub_data) \<Rightarrow> nat \<Rightarrow> event list
     \<Rightarrow> m4sensorhub_data \<Rightarrow> outcome \<times> event list \<times> m4sensorhub_data option" where
  "panic_handlers cb i tr m =
     (if i < PANICHDL_MAX then
        (case panicdata m of
           None \<Rightarrow> (Faulted NullDeref, tr, Some m)
         | Some pd \<Rightarrow>
             if callback (funcs pd i) \<noteq> 0
             then panic_handlers cb (i + 1)
                    (tr @ [PanicCall i (callback (funcs pd i)) m (data (funcs pd i))])
                    (cb (callback (funcs pd i)) m (data (funcs pd i)))
             else panic_handlers cb (i + 1) tr m)
      else (Returned, tr, Some m))"
  by pat_completeness auto
termination
  by (relation "measure (\<lambda>(cb, i, tr, m). PANICHDL_MAX - i)") auto

declare panic_handlers.simps [simp del]

text \<open>
  \<open>m4sensorhub_panic_process\<close>. \<open>resp\<close> is what \<open>m4sensorhub_i2c_write_read\<close> gives for
  the panic-check command: its return value and the value of \<open>buf.data\<close> after the
  transfer. \<open>fw_ret\<close> is the return value of \<open>m4sensorhub_load_firmware\<close>. The call
  \<open>m4sensorhub->pdev->hw_reset(m4sensorhub)\<close> reads \<open>pdev\<close> and the hook with no test.
  The result is how the run ended (returned, stopped in \<open>BUG()\<close>, or faulted), the events,
  and the hub record.
\<close>

definition m4sensorhub_panic_process ::
  "(fnptr \<Rightarrow> m4sensorhub_data \<Rightarrow> ptr \<Rightarrow> m4sensorhub_data) \<Rightarrow> (int \<times> 32 word) \<Rightarrow> int
     \<Rightarrow> m4sensorhub_data option \<Rightarrow> outcome \<times> event list \<times> m4sensorhub_data option" where
  "m4sensorhub_panic_process cb resp fw_ret m4sensorhub =
     (case m4sensorhub of
        None \<Rightarrow> (Returned, [], None)
      | Some m \<Rightarrow>
          (case panicdata m of
             None \<Rightarrow> (Returned, [], Some m)
           | Some pd \<Rightarrow>
               (let check = [RegAccessLock, I2cWriteRead [PANIC_BANK, PANIC_CMD_CHECK] 2 4] in
                if fst resp \<noteq> 4 \<or> snd resp \<noteq> PANIC_RESP_CHECK
                then (Returned, check @ [RegAccessUnlock], Some m)
                else
                  (case pdev m of
                     None \<Rightarrow> (Faulted NullDeref, check, Some m)
                   | Some pf \<Rightarrow>
                       if hw_reset pf = 0 then (Faulted NullDeref, check, Some m)
                       else
                         (let reset = check @ [HwReset, Msleep 100, LoadFirmware] in
                          if fw_ret < 0 then (Halted, reset @ [Bug], Some m)
                          else panic_handlers cb 0 (reset @ [RegAccessUnlock]) m)))))"

section \<open>M4 sensor hub: init-call registry (m4sensorhub_core)\<close>

text \<open>
  The init-call list lives in \<open>kzalloc\<close>ed memory and is reached from the file-scope
  pointer \<open>inithead\<close>. The store \<open>objs\<close> maps the address of an \<open>init_call\<close> object to
  its contents; \<open>freed\<close> holds the addresses given to \<open>kfree\<close>, and \<open>refreed\<close> those
  given to \<open>kfree\<close> while they were freed already. \<open>kfree\<close> does not clear an object: an
  access through a pointer to a freed object finds in \<open>objs\<close> what was last written there.
  An address with no object in \<open>objs\<close> is a wild pointer, and an access through it is the
  fault \<open>BadPointer\<close>. An init callback is recorded as the event of its call, what it
  returns is the parameter \<open>cbret\<close>, and what it does to the list is outside the model.
\<close>

record init_call =
  initcb :: fnptr
  pdata :: ptr
  nxt :: ptr

record driver_state =
  objs :: "ptr \<rightharpoonup> init_call"
  freed :: "ptr set"
  refreed :: "ptr set"
  inithead :: ptr
  m4sensorhub_misc_data :: m4sensorhub_data
  firmware_download_status :: int

definition kfree :: "ptr \<Rightarrow> driver_state \<Rightarrow> driver_state" where
  "kfree a s =
     (if a \<in> freed s then s\<lparr>refreed := insert a (refreed s)\<rparr>
      else s\<lparr>freed := insert a (freed s)\<rparr>)"

text \<open>
  \<open>m4sensorhub_register_initcall\<close>; \<open>inc\<close> is the address that \<open>kzalloc\<close> returned,
  \<open>0\<close> when the allocation failed. The callback is stored with no test.
\<close>

definition m4sensorhub_register_initcall ::
  "ptr \<Rightarrow> fnptr \<Rightarrow> ptr \<Rightarrow> driver_state \<Rightarrow> int \<times> driver_state" where
  "m4sensorhub_register_initcall inc initfunc pd s =
     (if inc = 0 then (- ENOMEM, s)
      else (0, s\<lparr>objs := (objs s)(inc \<mapsto>
                       \<lparr>initcb = initfunc, pdata = pd,
                        nxt = (if inithead s = 0 then 0 else inithead s)\<rparr>),
                  freed := freed s - {inc},
                  refreed := refreed s - {inc},
                  inithead := inc\<rparr>))"

text \<open>
  The loop of \<open>m4sensorhub_unregister_initcall\<close>, at the test \<open>node != NULL\<close> with the
  current \<open>node\<close> and \<open>prev\<close>. After the body the step \<open>prev = node, node = node->next\<close>
  reads \<open>node->next\<close> from the store again, also when the body has just freed \<open>node\<close>.
  A list that runs into a cycle keeps the loop running: the result is \<open>None\<close>.
\<close>

partial_function (option) unregister_loop ::
  "fnptr \<Rightarrow> ptr \<Rightarrow> ptr \<Rightarrow> driver_state \<Rightarrow> (fault + driver_state) option" where
  "unregister_loop initfunc node prev s =
     (if node = 0 then Some (Inr s)
      else
        (case objs s node of
           None \<Rightarrow> Some (Inl BadPointer)
         | Some n \<Rightarrow>
             if initcb n = initfunc then
               (if node = inithead s then
                  (case objs (kfree node (s\<lparr>inithead := nxt n\<rparr>)) node of
                     None \<Rightarrow> Some (Inl BadPointer)
                   | Some n' \<Rightarrow>
                       unregister_loop initfunc (nxt n') node
                         (kfree node (s\<lparr>inithead := nxt n\<rparr>)))
                else if prev = 0 then Some (Inl NullDeref)
                else
                  (case objs s prev of
                     None \<Rightarrow> Some (Inl BadPointer)
                   | Some p \<Rightarrow>
                       (case objs (kfree node
                                (s\<lparr>objs := (objs s)(prev \<mapsto> p\<lparr>nxt := nxt n\<rparr>)\<rparr>)) node of
                          None \<Rightarrow> Some (Inl BadPointer)
                        | Some n' \<Rightarrow>
                            unregister_loop initfunc (nxt n') node
                              (kfree node
                                (s\<lparr>objs := (objs s)(prev \<mapsto> p\<lparr>nxt := nxt n\<rparr>)\<rparr>)))))
             else unregister_loop initfunc (nxt n) node s))"

definition m4sensorhub_unregister_initcall ::
  "fnptr \<Rightarrow> driver_state \<Rightarrow> (fault + driver_state) option" where
  "m4sensorhub_unregister_initcall initfunc s = unregister_loop initfunc (inithead s) 0 s"

text \<open>
  The loop \<open>while (inc)\<close> of \<open>m4sensorhub_initialize\<close>. \<open>cbret f p\<close> is what the init
  callback \<open>f\<close> returns when it is called with \<open>p_data = p\<close>; \<open>tr\<close> collects the events.
  The call \<open>inc->initcb(&arg)\<close> is made with no test of the function pointer. A fault
  comes with the events up to it.
\<close>

partial_function (option) initcall_drain ::
  "(fnptr \<Rightarrow> ptr \<Rightarrow> int) \<Rightarrow> ptr \<Rightarrow> event list \<Rightarrow> driver_state
     \<Rightarrow> (fault \<times> event list + event list \<times> driver_state) option" where
  "initcall_drain cbret inc tr s =
     (if inc = 0 then Some (Inr (tr, s))
      else
        (case objs s inc of
           None \<Rightarrow> Some (Inl (BadPointer, tr))
         | Some n \<Rightarrow>
             if initcb n = 0 then Some (Inl (NullDeref, tr))
             else
               initcall_drain cbret (nxt n)
                 (tr @ [InitCall (initcb n) (pdata n)]
                     @ (if cbret (initcb n) (pdata n) < 0 then [DumpStack] else [])
                     @ [Kfree inc])
                 (kfree inc s)))"

text \<open>
  \<open>m4sensorhub_initialize\<close>. \<open>firmware_present\<close> is \<open>firmware != NULL\<close>. The code reads
  \<open>m4sensorhub_misc_data.i2c_client->addr\<close> with no test to choose the firmware loader;
  \<open>load_ret\<close> is what the chosen loader returns, \<open>irq_ret\<close> what \<open>m4sensorhub_irq_init\<close>
  returns. \<open>HwReset\<close> after a failed load is the call of \<open>m4sensorhub_hw_reset\<close>, which
  drives GPIO lines and writes nothing of this state.
\<close>

definition load_event :: "i2c_client \<Rightarrow> event" where
  "load_event c = (if addr c = 0x39 then Load401Firmware else LoadFirmware)"

definition m4sensorhub_initialize ::
  "bool \<Rightarrow> int \<Rightarrow> int \<Rightarrow> (fnptr \<Rightarrow> ptr \<Rightarrow> int) \<Rightarrow> driver_state
     \<Rightarrow> (fault \<times> event list + event list \<times> driver_state) option" where
  "m4sensorhub_initialize firmware_present load_ret irq_ret cbret s =
     (if \<not> firmware_present then Some (Inr ([], s))
      else
        (case i2c_client (m4sensorhub_misc_data s) of
           None \<Rightarrow> Some (Inl (NullDeref, []))
         | Some c \<Rightarrow>
             if load_ret < 0
             then Some (Inr ([load_event c, HwReset],
                             s\<lparr>firmware_download_status := load_ret\<rparr>))
             else if irq_ret < 0
             then Some (Inr ([load_event c, IrqInit],
                             s\<lparr>firmware_download_status := load_ret\<rparr>))
             else
               (case initcall_drain cbret (inithead s) [load_event c, IrqInit]
                       (s\<lparr>firmware_download_status := load_ret\<rparr>) of
                  None \<Rightarrow> None
                | Some (Inl e) \<Rightarrow> Some (Inl e)
                | Some (Inr (tr, s')) \<Rightarrow>
                    Some (Inr (tr, s'\<lparr>m4sensorhub_misc_data :=
                                       (m4sensorhub_misc_data s')\<lparr>mode := NORMALMODE\<rparr>\<rparr>)))))"

subsection \<open>Reading the list out of the store\<close>

text \<open>
  \<open>init_list h p rs\<close>: following \<open>next\<close> from \<open>p\<close> in the store \<open>h\<close> visits exactly the
  objects listed in \<open>rs\<close>, in this order, and then reaches \<open>NULL\<close>; an entry of \<open>rs\<close> is
  the address of the object, its callback and its data.
\<close>

primrec init_list ::
  "(ptr \<rightharpoonup> init_call) \<Rightarrow> ptr \<Rightarrow> (ptr \<times> fnptr \<times> ptr) list \<Rightarrow> bool" where
  "init_list h p [] = (p = 0)"
| "init_list h p (r # rs) =
     (p = fst r \<and> p \<noteq> 0 \<and>
      (case h p of
         None \<Rightarrow> False
       | Some n \<Rightarrow>
           initcb n = fst (snd r) \<and> pdata n = snd (snd r) \<and> init_list h (nxt n) rs))"


text \<open>A run of registrations; each is the address from \<open>kzalloc\<close>, the callback and its data.\<close>

fun register_all :: "(ptr \<times> fnptr \<times> ptr) list \<Rightarrow> driver_state \<Rightarrow> driver_state" where
  "register_all [] s = s"
| "register_all ((a, f, p) # rs) s =
     register_all rs (snd (m4sensorhub_register_initcall a f p s))"

text \<open>What the drain does at one node: the call, the stack dump on a negative result, the free.\<close>

definition node_events :: "(fnptr \<Rightarrow> ptr \<Rightarrow> int) \<Rightarrow> ptr \<times> fnptr \<times> ptr \<Rightarrow> event list" where
  "node_events cbret r =
     (case r of (a, f, p) \<Rightarrow>
        [InitCall f p] @ (if cbret f p < 0 then [DumpStack] else []) @ [Kfree a])"

text \<open>The address that follows a node whose successors in the list are \<open>ys\<close>.\<close>

definition next_of :: "(ptr \<times> fnptr \<times> ptr) list \<Rightarrow> ptr" where
  "next_of ys = (case ys of [] \<Rightarrow> 0 | y # _ \<Rightarrow> fst y)"

text \<open>
  The state of the driver when the module is loaded (no object, \<open>inithead = NULL\<close>, the
  static hub record zeroed), and after the probe has linked the I2C client at address
  \<open>M4SENSORHUB_I2C_ADDR\<close>.
\<close>

definition module_loaded :: driver_state where
  "module_loaded =
     \<lparr>objs = Map.empty, freed = {}, refreed = {}, inithead = 0,
      m4sensorhub_misc_data =
        \<lparr>i2c_client = None, irqdata = 0, panicdata = None, mode = UNINITIALIZED,
         pdev = None, filename = 0\<rparr>,
      firmware_download_status = - 1\<rparr>"

definition probed :: driver_state where
  "probed =
     module_loaded\<lparr>m4sensorhub_misc_data :=
       (m4sensorhub_misc_data module_loaded)\<lparr>i2c_client := Some \<lparr>addr = 0x18\<rparr>\<rparr>\<rparr>"

section \<open>Notions used to state the properties\<close>

text \<open>The indices of the panic callbacks called in a run, in the order of the calls.\<close>

fun call_indices :: "event list \<Rightarrow> nat list" where
  "call_indices [] = []"
| "call_indices (PanicCall i f h d # es) = i # call_indices es"
| "call_indices (e # es) = call_indices es"

definition populated :: "m4sensorhub_panicdata \<Rightarrow> nat \<Rightarrow> bool" where
  "populated pd i = (callback (funcs pd i) \<noteq> 0)"

text \<open>
  Calling the slots \<open>is\<close> of the table \<open>pd\<close> one after the other, starting with the hub
  \<open>m\<close>: each slot's callback is called with the hub as the calls before have left it and
  with the context stored in the slot. \<open>slot_calls\<close> gives the events, \<open>hub_after\<close> the hub
  at the end.
\<close>

fun slot_calls ::
  "(fnptr \<Rightarrow> m4sensorhub_data \<Rightarrow> ptr \<Rightarrow> m4sensorhub_data) \<Rightarrow> m4sensorhub_panicdata
     \<Rightarrow> nat list \<Rightarrow> m4sensorhub_data \<Rightarrow> event list" where
  "slot_calls cb pd [] m = []"
| "slot_calls cb pd (i # is) m =
     PanicCall i (callback (funcs pd i)) m (data (funcs pd i))
       # slot_calls cb pd is (cb (callback (funcs pd i)) m (data (funcs pd i)))"

fun hub_after ::
  "(fnptr \<Rightarrow> m4sensorhub_data \<Rightarrow> ptr \<Rightarrow> m4sensorhub_data) \<Rightarrow> m4sensorhub_panicdata
     \<Rightarrow> nat list \<Rightarrow> m4sensorhub_data \<Rightarrow> m4sensorhub_data" where
  "hub_after cb pd [] m = m"
| "hub_after cb pd (i # is) m =
     hub_after cb pd is (cb (callback (funcs pd i)) m (data (funcs pd i)))"

text \<open>
  An event is in order for the table \<open>pd\<close> when, if it is the call of a panic callback, the
  function and the context are those stored in the slot of its index, and the hub handed
  over carries this table.
\<close>

fun call_in_order :: "m4sensorhub_panicdata \<Rightarrow> event \<Rightarrow> bool" where
  "call_in_order pd (PanicCall i f h d) =
     (f = callback (funcs pd i) \<and> d = data (funcs pd i) \<and> panicdata h = Some pd)"
| "call_in_order pd e = True"

text \<open>
  The callbacks registered in \<open>pd\<close> leave the registry as it is: called with a hub that
  carries \<open>pd\<close> and with the context of their slot, they return a hub that carries \<open>pd\<close>.
\<close>

definition keeps_registry ::
  "(fnptr \<Rightarrow> m4sensorhub_data \<Rightarrow> ptr \<Rightarrow> m4sensorhub_data) \<Rightarrow> m4sensorhub_panicdata \<Rightarrow> bool" where
  "keeps_registry cb pd =
     (\<forall>i < PANICHDL_MAX. populated pd i \<longrightarrow>
        (\<forall>h. panicdata h = Some pd \<longrightarrow>
           panicdata (cb (callback (funcs pd i)) h (data (funcs pd i))) = Some pd))"

text \<open>The events of the panic check, and of the reset and reload that follow a confirmed panic.\<close>

definition check_events :: "event list" where
  "check_events = [RegAccessLock, I2cWriteRead [PANIC_BANK, PANIC_CMD_CHECK] 2 4]"

definition reset_events :: "event list" where
  "reset_events = [HwReset, Msleep 100, LoadFirmware]"

text \<open>
  Calls made by the clients and by the interrupt path while the panic module is in use, that
  is after \<open>m4sensorhub_panic_init\<close> and before \<open>m4sensorhub_panic_shutdown\<close>; all pass
  the hub pointer, which is not \<open>NULL\<close>. \<open>panic_calls cb ops m\<close> makes the calls \<open>ops\<close>
  one after the other, starting with the hub record \<open>m\<close>. A call that faults, and a
  \<open>m4sensorhub_panic_process\<close> that stops in \<open>BUG()\<close>, ends the run: the calls behind it
  are not made.
\<close>

datatype panic_op =
    Register nat fnptr ptr
  | Unregister nat
  | Process "int \<times> 32 word" int

fun panic_call ::
  "(fnptr \<Rightarrow> m4sensorhub_data \<Rightarrow> ptr \<Rightarrow> m4sensorhub_data) \<Rightarrow> panic_op \<Rightarrow> m4sensorhub_data
     \<Rightarrow> outcome \<times> m4sensorhub_data" where
  "panic_call cb (Register index cb_func dat) m =
     (case m4sensorhub_panic_register (Some m) index cb_func dat of
        Inl e \<Rightarrow> (Faulted e, m)
      | Inr (r, m') \<Rightarrow> (Returned, case m' of None \<Rightarrow> m | Some m'' \<Rightarrow> m''))"
| "panic_call cb (Unregister index) m =
     (case m4sensorhub_panic_unregister (Some m) index of
        Inl e \<Rightarrow> (Faulted e, m)
      | Inr (r, m') \<Rightarrow> (Returned, case m' of None \<Rightarrow> m | Some m'' \<Rightarrow> m''))"
| "panic_call cb (Process resp fw_ret) m =
     (case m4sensorhub_panic_process cb resp fw_ret (Some m) of
        (oc, tr, m') \<Rightarrow> (oc, case m' of None \<Rightarrow> m | Some m'' \<Rightarrow> m''))"

fun panic_calls ::
  "(fnptr \<Rightarrow> m4sensorhub_data \<Rightarrow> ptr \<Rightarrow> m4sensorhub_data) \<Rightarrow> panic_op list
     \<Rightarrow> m4sensorhub_data \<Rightarrow> outcome \<times> m4sensorhub_data" where
  "panic_calls cb [] m = (Returned, m)"
| "panic_calls cb (c # cs) m =
     (case panic_call cb c m of
        (Returned, m') \<Rightarrow> panic_calls cb cs m'
      | (Halted, m') \<Rightarrow> (Halted, m')
      | (Faulted e, m') \<Rightarrow> (Faulted e, m'))"

text \<open>
  Hubs and callbacks for concrete runs. \<open>board\<close> is platform data with every hook installed.
  The hubs are: probed with no panic data, after \<open>m4sensorhub_panic_init\<close>, with both slots
  registered, and with both slots registered but no platform data. \<open>cb_sets_normal\<close> are
  callbacks that set the mode and leave the rest of the hub; with \<open>cb_unregisters_irq\<close> the
  callback at address 16 unregisters the IRQ-restore slot.
\<close>

definition board :: m4sensorhub_platform_data where
  "board =
     \<lparr>hw_init = 64, hw_free = 65, hw_reset = 66, set_bootmode = 67, stillmode_exit = 68,
      set_display_control = 69\<rparr>"

definition hub_no_panicdata :: m4sensorhub_data where
  "hub_no_panicdata =
     \<lparr>i2c_client = Some \<lparr>addr = 0x18\<rparr>, irqdata = 0, panicdata = None,
      mode = UNINITIALIZED, pdev = Some board, filename = 0\<rparr>"

definition hub_init :: m4sensorhub_data where
  "hub_init =
     \<lparr>i2c_client = Some \<lparr>addr = 0x18\<rparr>, irqdata = 0, panicdata = Some zeroed_panicdata,
      mode = UNINITIALIZED, pdev = Some board, filename = 0\<rparr>"

definition pd_both :: m4sensorhub_panicdata where
  "pd_both =
     \<lparr>funcs = (\<lambda>_. \<lparr>callback = 0, data = 0\<rparr>)
        (0 := \<lparr>callback = 16, data = 32\<rparr>, 1 := \<lparr>callback = 17, data = 33\<rparr>)\<rparr>"

definition hub_both :: m4sensorhub_data where
  "hub_both =
     \<lparr>i2c_client = Some \<lparr>addr = 0x18\<rparr>, irqdata = 0, panicdata = Some pd_both,
      mode = BOOTMODE, pdev = Some board, filename = 0\<rparr>"

definition hub_no_pdev :: m4sensorhub_data where
  "hub_no_pdev =
     \<lparr>i2c_client = Some \<lparr>addr = 0x18\<rparr>, irqdata = 0, panicdata = Some pd_both,
      mode = BOOTMODE, pdev = None, filename = 0\<rparr>"

definition cb_sets_normal :: "fnptr \<Rightarrow> m4sensorhub_data \<Rightarrow> ptr \<Rightarrow> m4sensorhub_data" where
  "cb_sets_normal f h d = h\<lparr>mode := NORMALMODE\<rparr>"

definition cb_unregisters_irq :: "fnptr \<Rightarrow> m4sensorhub_data \<Rightarrow> ptr \<Rightarrow> m4sensorhub_data" where
  "cb_unregisters_irq f h d =
     (if f = 16 then
        (case m4sensorhub_panic_unregister (Some h) PANICHDL_IRQ_RESTORE of
           Inr (r, Some h') \<Rightarrow> h'
         | _ \<Rightarrow> h)
      else h)"

section \<open>Panic recovery\<close>

lemma upt_max: "[0..<PANICHDL_MAX] = [PANICHDL_DISPLAY_RESTORE, PANICHDL_IRQ_RESTORE]"
  by (simp add: PANICHDL_MAX_def PANICHDL_IRQ_RESTORE_def PANICHDL_DISPLAY_RESTORE_def
      upt_conv_Cons)

lemma keeps_registryD:
  "keeps_registry cb pd \<Longrightarrow> i < PANICHDL_MAX \<Longrightarrow> populated pd i \<Longrightarrow> panicdata h = Some pd \<Longrightarrow>
   panicdata (cb (callback (funcs pd i)) h (data (funcs pd i))) = Some pd"
  by (simp add: keeps_registry_def)

text \<open>
  With callbacks that leave the registry as it is, the loop, which reads the table again in
  each round, calls the slots that were populated at entry.
\<close>

lemma panic_handlers_slots:
  "panicdata m = Some pd \<Longrightarrow> keeps_registry cb pd \<Longrightarrow>
   panic_handlers cb i tr m =
     (Returned,
      tr @ slot_calls cb pd (filter (populated pd) [i..<PANICHDL_MAX]) m,
      Some (hub_after cb pd (filter (populated pd) [i..<PANICHDL_MAX]) m))"
proof (induction cb i tr m rule: panic_handlers.induct)
  case (1 cb i tr m)
  show ?case
  proof (cases "i < PANICHDL_MAX")
    case False
    then show ?thesis
      by (subst panic_handlers.simps) simp
  next
    case True
    then have upt: "[i..<PANICHDL_MAX] = i # [i + 1..<PANICHDL_MAX]"
      by (simp add: upt_conv_Cons)
    show ?thesis
    proof (cases "populated pd i")
      case True
      let ?m' = "cb (callback (funcs pd i)) m (data (funcs pd i))"
      from True have nz: "callback (funcs pd i) \<noteq> 0"
        by (simp add: populated_def)
      from "1.prems" \<open>i < PANICHDL_MAX\<close> True have "panicdata ?m' = Some pd"
        by (simp add: keeps_registryD)
      from "1.IH"(1) [OF \<open>i < PANICHDL_MAX\<close> "1.prems"(1) nz this "1.prems"(2)]
      have "panic_handlers cb (i + 1)
              (tr @ [PanicCall i (callback (funcs pd i)) m (data (funcs pd i))]) ?m' =
            (Returned,
             (tr @ [PanicCall i (callback (funcs pd i)) m (data (funcs pd i))])
               @ slot_calls cb pd (filter (populated pd) [i + 1..<PANICHDL_MAX]) ?m',
             Some (hub_after cb pd (filter (populated pd) [i + 1..<PANICHDL_MAX]) ?m'))" .
      with \<open>i < PANICHDL_MAX\<close> True nz "1.prems"(1) upt show ?thesis
        by (subst panic_handlers.simps) simp
    next
      case False
      then have z: "callback (funcs pd i) = 0"
        by (simp add: populated_def)
      then have "\<not> callback (funcs pd i) \<noteq> 0"
        by simp
      from "1.IH"(2) [OF \<open>i < PANICHDL_MAX\<close> "1.prems"(1) this "1.prems"]
      have "panic_handlers cb (i + 1) tr m =
            (Returned,
             tr @ slot_calls cb pd (filter (populated pd) [i + 1..<PANICHDL_MAX]) m,
             Some (hub_after cb pd (filter (populated pd) [i + 1..<PANICHDL_MAX]) m))" .
      with \<open>i < PANICHDL_MAX\<close> False z "1.prems"(1) upt show ?thesis
        by (subst panic_handlers.simps) simp
    qed
  qed
qed

lemma call_indices_append: "call_indices (xs @ ys) = call_indices xs @ call_indices ys"
  by (induction xs rule: call_indices.induct) simp_all

lemma call_indices_slot_calls: "call_indices (slot_calls cb pd js m) = js"
  by (induction js arbitrary: m) simp_all

lemma slot_calls_in_order:
  "panicdata m = Some pd \<Longrightarrow> keeps_registry cb pd \<Longrightarrow>
   \<forall>i \<in> set js. i < PANICHDL_MAX \<and> populated pd i \<Longrightarrow>
   \<forall>e \<in> set (slot_calls cb pd js m). call_in_order pd e"
proof (induction js arbitrary: m)
  case Nil
  then show ?case by simp
next
  case (Cons j js)
  from Cons.prems have "panicdata (cb (callback (funcs pd j)) m (data (funcs pd j))) = Some pd"
    by (simp add: keeps_registryD)
  from Cons.IH [OF this Cons.prems(2)] Cons.prems(1,3) show ?case
    by simp
qed

lemma process_confirmed:
  assumes "panicdata m = Some pd" and "pdev m = Some pf" and "hw_reset pf \<noteq> 0"
    and "0 \<le> fw_ret" and "keeps_registry cb pd"
  shows "m4sensorhub_panic_process cb (4, PANIC_RESP_CHECK) fw_ret (Some m) =
           (Returned,
            check_events @ reset_events @ [RegAccessUnlock]
              @ slot_calls cb pd (filter (populated pd) [0..<PANICHDL_MAX]) m,
            Some (hub_after cb pd (filter (populated pd) [0..<PANICHDL_MAX]) m))"
  using assms
  by (simp add: m4sensorhub_panic_process_def panic_handlers_slots check_events_def
      reset_events_def)

text \<open>
  C1, as amended. Let the platform data with its \<open>hw_reset\<close> hook be installed, let the
  panic check answer 4 bytes equal to \<open>0xDeadBeef\<close>, let the firmware reload not return a
  negative value, and let the registered callbacks leave the panic registry as it is. Then
  \<open>m4sensorhub_panic_process\<close> takes the bus lock, checks, resets the hub, sleeps, reloads
  the firmware, releases the lock, and then calls the populated slots of the registry, each
  exactly once, in ascending index order, each with its stored callback, with the hub and
  with its stored context; a populated IRQ-restore slot is called last.
\<close>

theorem panic_process_calls_slots_in_index_order:
  assumes "panicdata m = Some pd" and "pdev m = Some pf" and "hw_reset pf \<noteq> 0"
    and "0 \<le> fw_ret" and "keeps_registry cb pd"
  shows "m4sensorhub_panic_process cb (4, PANIC_RESP_CHECK) fw_ret (Some m) =
           (Returned,
            check_events @ reset_events @ [RegAccessUnlock]
              @ slot_calls cb pd (filter (populated pd) [0..<PANICHDL_MAX]) m,
            Some (hub_after cb pd (filter (populated pd) [0..<PANICHDL_MAX]) m))
         \<and> call_indices
               (fst (snd (m4sensorhub_panic_process cb (4, PANIC_RESP_CHECK) fw_ret (Some m))))
             = filter (populated pd) [0..<PANICHDL_MAX]
         \<and> sorted_wrt (<)
             (call_indices
               (fst (snd (m4sensorhub_panic_process cb (4, PANIC_RESP_CHECK) fw_ret (Some m)))))
         \<and> (\<forall>i < PANICHDL_MAX. populated pd i \<longrightarrow>
               count_list
                 (call_indices
                   (fst (snd (m4sensorhub_panic_process cb (4, PANIC_RESP_CHECK) fw_ret (Some m)))))
                 i = 1)
         \<and> (populated pd PANICHDL_IRQ_RESTORE \<longrightarrow>
               last (call_indices
                 (fst (snd (m4sensorhub_panic_process cb (4, PANIC_RESP_CHECK) fw_ret (Some m)))))
                 = PANICHDL_IRQ_RESTORE)
         \<and> (\<forall>e \<in> set (fst (snd (m4sensorhub_panic_process cb (4, PANIC_RESP_CHECK) fw_ret
                                    (Some m)))).
               call_in_order pd e)"
proof -
  let ?tr = "fst (snd (m4sensorhub_panic_process cb (4, PANIC_RESP_CHECK) fw_ret (Some m)))"
  let ?slots = "filter (populated pd) [0..<PANICHDL_MAX]"
  have run: "m4sensorhub_panic_process cb (4, PANIC_RESP_CHECK) fw_ret (Some m) =
           (Returned,
            check_events @ reset_events @ [RegAccessUnlock] @ slot_calls cb pd ?slots m,
            Some (hub_after cb pd ?slots m))"
    using assms by (rule process_confirmed)
  then have tr: "?tr = check_events @ reset_events @ [RegAccessUnlock] @ slot_calls cb pd ?slots m"
    by simp
  have idx: "call_indices ?tr = ?slots"
    unfolding tr call_indices_append call_indices_slot_calls
    by (simp add: check_events_def reset_events_def)
  have asc: "sorted_wrt (<) (call_indices ?tr)"
    unfolding idx by (rule sorted_wrt_filter) simp
  have once: "\<forall>i < PANICHDL_MAX. populated pd i \<longrightarrow> count_list (call_indices ?tr) i = 1"
    unfolding idx upt_max
    by (auto simp: PANICHDL_MAX_def PANICHDL_IRQ_RESTORE_def PANICHDL_DISPLAY_RESTORE_def
        less_Suc_eq)
  have irq_last: "populated pd PANICHDL_IRQ_RESTORE \<longrightarrow>
                    last (call_indices ?tr) = PANICHDL_IRQ_RESTORE"
    unfolding idx upt_max by simp
  have "\<forall>e \<in> set (slot_calls cb pd ?slots m). call_in_order pd e"
    using assms(1,5) by (rule slot_calls_in_order) simp
  then have in_order: "\<forall>e \<in> set ?tr. call_in_order pd e"
    unfolding tr by (auto simp: check_events_def reset_events_def)
  from run idx asc once irq_last in_order show ?thesis
    by blast
qed

theorem panic_process_calls_slots_in_index_order_witness:
  "panicdata hub_both = Some pd_both \<and> pdev hub_both = Some board \<and> hw_reset board \<noteq> 0
   \<and> (0::int) \<le> 0 \<and> keeps_registry cb_sets_normal pd_both
   \<and> m4sensorhub_panic_process cb_sets_normal (4, 0xDEADBEEF) 0 (Some hub_both) =
       (Returned,
        [RegAccessLock, I2cWriteRead [0xFF, 0xCD] 2 4, HwReset, Msleep 100, LoadFirmware,
         RegAccessUnlock,
         PanicCall 0 16 hub_both 32,
         PanicCall 1 17 (hub_both\<lparr>mode := NORMALMODE\<rparr>) 33],
        Some (hub_both\<lparr>mode := NORMALMODE\<rparr>))"
proof -
  have hyps: "panicdata hub_both = Some pd_both" "pdev hub_both = Some board"
    "hw_reset board \<noteq> 0" "(0::int) \<le> 0" "keeps_registry cb_sets_normal pd_both"
    by (simp_all add: hub_both_def board_def keeps_registry_def cb_sets_normal_def)
  from panic_process_calls_slots_in_index_order [OF hyps] hyps show ?thesis
    by (simp add: upt_max populated_def pd_both_def cb_sets_normal_def check_events_def
        reset_events_def PANIC_RESP_CHECK_def PANIC_BANK_def PANIC_CMD_CHECK_def
        PANICHDL_IRQ_RESTORE_def PANICHDL_DISPLAY_RESTORE_def)
qed

text \<open>
  The claim as first stated has none of the three conditions. With both slots populated and
  a confirmed panic: when the reload returns \<open>-1\<close> the run stops in \<open>BUG()\<close> and no slot is
  called; when no platform data is installed the run faults at the call of the reset hook,
  before reset, reload and callbacks; and when the callback of slot 0 unregisters the
  IRQ-restore slot, the loop finds that slot empty and calls slot 0 only.
\<close>

theorem panic_process_reload_failure_counterexample:
  "populated pd_both 0 \<and> populated pd_both 1
   \<and> panicdata hub_both = Some pd_both \<and> panicdata hub_no_pdev = Some pd_both
   \<and> m4sensorhub_panic_process cb_sets_normal (4, 0xDEADBEEF) (- 1) (Some hub_both) =
       (Halted,
        [RegAccessLock, I2cWriteRead [0xFF, 0xCD] 2 4, HwReset, Msleep 100, LoadFirmware, Bug],
        Some hub_both)
   \<and> m4sensorhub_panic_process cb_sets_normal (4, 0xDEADBEEF) 0 (Some hub_no_pdev) =
       (Faulted NullDeref, [RegAccessLock, I2cWriteRead [0xFF, 0xCD] 2 4], Some hub_no_pdev)
   \<and> call_indices
        (fst (snd (m4sensorhub_panic_process cb_unregisters_irq (4, 0xDEADBEEF) 0
                     (Some hub_both)))) = [0]"
  by (simp add: m4sensorhub_panic_process_def panic_handlers.simps
      m4sensorhub_panic_unregister_def cb_unregisters_irq_def hub_both_def hub_no_pdev_def
      pd_both_def board_def populated_def PANIC_RESP_CHECK_def PANIC_BANK_def
      PANIC_CMD_CHECK_def PANICHDL_MAX_def PANICHDL_IRQ_RESTORE_def)

text \<open>
  C2. When the panic check returns a byte count other than 4, or four bytes that differ from
  the magic value, \<open>m4sensorhub_panic_process\<close> releases the bus lock and returns: no reset,
  no reload, no callback, and the hub record (its mode and its panic registry) is as before.
\<close>

theorem panic_process_not_confirmed:
  assumes "panicdata m = Some pd" and "ret \<noteq> 4 \<or> resp_data \<noteq> PANIC_RESP_CHECK"
  shows "m4sensorhub_panic_process cb (ret, resp_data) fw_ret (Some m) =
           (Returned, check_events @ [RegAccessUnlock], Some m)
         \<and> HwReset \<notin> set (fst (snd (m4sensorhub_panic_process cb (ret, resp_data) fw_ret (Some m))))
         \<and> LoadFirmware \<notin> set (fst (snd (m4sensorhub_panic_process cb (ret, resp_data) fw_ret (Some m))))
         \<and> call_indices (fst (snd (m4sensorhub_panic_process cb (ret, resp_data) fw_ret (Some m)))) = []
         \<and> last (fst (snd (m4sensorhub_panic_process cb (ret, resp_data) fw_ret (Some m)))) = RegAccessUnlock"
  using assms
  by (auto simp: m4sensorhub_panic_process_def check_events_def)

theorem panic_process_not_confirmed_witness:
  "panicdata hub_both = Some pd_both
   \<and> (2::int) \<noteq> 4
   \<and> (0xDEADBEEE::32 word) \<noteq> PANIC_RESP_CHECK
   \<and> m4sensorhub_panic_process cb_sets_normal (2, 0xDEADBEEF) 0 (Some hub_both) =
       (Returned, [RegAccessLock, I2cWriteRead [0xFF, 0xCD] 2 4, RegAccessUnlock], Some hub_both)
   \<and> m4sensorhub_panic_process cb_sets_normal (4, 0xDEADBEEE) 0 (Some hub_both) =
       (Returned, [RegAccessLock, I2cWriteRead [0xFF, 0xCD] 2 4, RegAccessUnlock], Some hub_both)
   \<and> mode hub_both = BOOTMODE"
  using panic_process_not_confirmed [of hub_both pd_both 2 "0xDEADBEEF" cb_sets_normal 0]
    panic_process_not_confirmed [of hub_both pd_both 4 "0xDEADBEEE" cb_sets_normal 0]
  by (simp add: hub_both_def check_events_def PANIC_RESP_CHECK_def PANIC_BANK_def
      PANIC_CMD_CHECK_def)

text \<open>
  C3. When the platform reset hook is installed, so that the reload is reached, and the
  firmware reload after a confirmed panic returns a negative value,
  \<open>m4sensorhub_panic_process\<close> stops in \<open>BUG()\<close>: the reload has run once, no recovery
  callback is called, and the function does not return.
\<close>

theorem panic_process_reload_failure_halts:
  assumes "panicdata m = Some pd" and "pdev m = Some pf" and "hw_reset pf \<noteq> 0"
    and "fw_ret < 0"
  shows "m4sensorhub_panic_process cb (4, PANIC_RESP_CHECK) fw_ret (Some m) =
           (Halted, check_events @ reset_events @ [Bug], Some m)
         \<and> count_list (fst (snd (m4sensorhub_panic_process cb (4, PANIC_RESP_CHECK) fw_ret (Some m))))
             LoadFirmware = 1
         \<and> call_indices (fst (snd (m4sensorhub_panic_process cb (4, PANIC_RESP_CHECK) fw_ret (Some m)))) = []
         \<and> RegAccessUnlock \<notin>
             set (fst (snd (m4sensorhub_panic_process cb (4, PANIC_RESP_CHECK) fw_ret (Some m))))"
  using assms
  by (simp add: m4sensorhub_panic_process_def check_events_def reset_events_def)

theorem panic_process_reload_failure_halts_witness:
  "panicdata hub_both = Some pd_both \<and> pdev hub_both = Some board \<and> hw_reset board \<noteq> 0
   \<and> (- 5::int) < 0
   \<and> m4sensorhub_panic_process cb_sets_normal (4, 0xDEADBEEF) (- 5) (Some hub_both) =
       (Halted,
        [RegAccessLock, I2cWriteRead [0xFF, 0xCD] 2 4, HwReset, Msleep 100, LoadFirmware, Bug],
        Some hub_both)"
  using panic_process_reload_failure_halts [of hub_both pd_both board "- 5" cb_sets_normal]
  by (simp add: hub_both_def board_def check_events_def reset_events_def PANIC_RESP_CHECK_def
      PANIC_BANK_def PANIC_CMD_CHECK_def)

text \<open>
  C5. For a valid index and a callback that is not \<open>NULL\<close>, \<open>m4sensorhub_panic_register\<close>
  on an occupied slot returns the error \<open>-EPERM\<close> and leaves the hub record, and with it the
  slot's callback and context, as it was; on an empty slot it returns 0 and stores the
  callback and the context in that slot, leaving the other slots as they were.
\<close>

theorem panic_register_never_overwrites:
  assumes "index < PANICHDL_MAX" and "cb_func \<noteq> 0" and "panicdata m = Some pd"
  shows "(populated pd index \<longrightarrow>
            m4sensorhub_panic_register (Some m) index cb_func dat = Inr (- EPERM, Some m)
            \<and> - EPERM < 0)
         \<and> (\<not> populated pd index \<longrightarrow>
              (\<exists>pd'. m4sensorhub_panic_register (Some m) index cb_func dat
                        = Inr (0, Some (m\<lparr>panicdata := Some pd'\<rparr>))
                 \<and> funcs pd' index = \<lparr>callback = cb_func, data = dat\<rparr>
                 \<and> (\<forall>j. j \<noteq> index \<longrightarrow> funcs pd' j = funcs pd j)))"
proof -
  let ?pd' = "pd\<lparr>funcs := (funcs pd)(index := \<lparr>callback = cb_func, data = dat\<rparr>)\<rparr>"
  have occupied: "populated pd index \<longrightarrow>
            m4sensorhub_panic_register (Some m) index cb_func dat = Inr (- EPERM, Some m)
            \<and> - EPERM < 0"
    using assms by (simp add: m4sensorhub_panic_register_def populated_def EPERM_def)
  have "\<not> populated pd index \<longrightarrow>
          m4sensorhub_panic_register (Some m) index cb_func dat
            = Inr (0, Some (m\<lparr>panicdata := Some ?pd'\<rparr>))
          \<and> funcs ?pd' index = \<lparr>callback = cb_func, data = dat\<rparr>
          \<and> (\<forall>j. j \<noteq> index \<longrightarrow> funcs ?pd' j = funcs pd j)"
    using assms by (simp add: m4sensorhub_panic_register_def populated_def)
  then have empty: "\<not> populated pd index \<longrightarrow>
              (\<exists>pd'. m4sensorhub_panic_register (Some m) index cb_func dat
                        = Inr (0, Some (m\<lparr>panicdata := Some pd'\<rparr>))
                 \<and> funcs pd' index = \<lparr>callback = cb_func, data = dat\<rparr>
                 \<and> (\<forall>j. j \<noteq> index \<longrightarrow> funcs pd' j = funcs pd j))"
    by blast
  from occupied empty show ?thesis by blast
qed

theorem panic_register_never_overwrites_witness:
  "(0::nat) < PANICHDL_MAX \<and> (18::nat) \<noteq> 0
   \<and> panicdata hub_both = Some pd_both \<and> populated pd_both 0
   \<and> m4sensorhub_panic_register (Some hub_both) 0 18 34 = Inr (- 1, Some hub_both)
   \<and> panicdata hub_init = Some zeroed_panicdata \<and> \<not> populated zeroed_panicdata 0
   \<and> m4sensorhub_panic_register (Some hub_init) 0 18 34
       = Inr (0, Some (hub_init\<lparr>panicdata := Some (zeroed_panicdata\<lparr>funcs :=
            (funcs zeroed_panicdata)(0 := \<lparr>callback = 18, data = 34\<rparr>)\<rparr>)\<rparr>))"
  using panic_register_never_overwrites [of 0 18 hub_both pd_both 34]
    panic_register_never_overwrites [of 0 18 hub_init zeroed_panicdata 34]
  by (simp add: m4sensorhub_panic_register_def hub_both_def hub_init_def pd_both_def
      zeroed_panicdata_def populated_def PANICHDL_MAX_def PANICHDL_IRQ_RESTORE_def EPERM_def)

text \<open>
  C8. For a valid index, \<open>m4sensorhub_panic_unregister\<close> returns 0 and leaves the slot
  empty, whether it was occupied or not, and leaves the other slots as they were; a second
  unregister gives the same result and the same hub record; and a
  \<open>m4sensorhub_panic_register\<close> with a callback that is not \<open>NULL\<close>, right after the
  unregister, returns 0 and stores the callback and the context.
\<close>

theorem panic_unregister_clears_slot:
  assumes "index < PANICHDL_MAX" and "panicdata m = Some pd"
  shows "\<exists>pd'. m4sensorhub_panic_unregister (Some m) index
                  = Inr (0, Some (m\<lparr>panicdata := Some pd'\<rparr>))
           \<and> funcs pd' index = \<lparr>callback = 0, data = 0\<rparr>
           \<and> (\<forall>j. j \<noteq> index \<longrightarrow> funcs pd' j = funcs pd j)
           \<and> m4sensorhub_panic_unregister (Some (m\<lparr>panicdata := Some pd'\<rparr>)) index
                  = Inr (0, Some (m\<lparr>panicdata := Some pd'\<rparr>))
           \<and> (cb_func \<noteq> 0 \<longrightarrow>
                (\<exists>pd''. m4sensorhub_panic_register (Some (m\<lparr>panicdata := Some pd'\<rparr>))
                            index cb_func dat
                          = Inr (0, Some (m\<lparr>panicdata := Some pd''\<rparr>))
                   \<and> funcs pd'' index = \<lparr>callback = cb_func, data = dat\<rparr>
                   \<and> (\<forall>j. j \<noteq> index \<longrightarrow> funcs pd'' j = funcs pd j)))"
proof -
  let ?pd' = "pd\<lparr>funcs := (funcs pd)(index := \<lparr>callback = 0, data = 0\<rparr>)\<rparr>"
  let ?pd'' = "?pd'\<lparr>funcs := (funcs ?pd')(index := \<lparr>callback = cb_func, data = dat\<rparr>)\<rparr>"
  have first: "m4sensorhub_panic_unregister (Some m) index
                 = Inr (0, Some (m\<lparr>panicdata := Some ?pd'\<rparr>))"
    using assms by (simp add: m4sensorhub_panic_unregister_def)
  have slot: "funcs ?pd' index = \<lparr>callback = 0, data = 0\<rparr>"
    and others: "\<forall>j. j \<noteq> index \<longrightarrow> funcs ?pd' j = funcs pd j"
    by simp_all
  have again: "m4sensorhub_panic_unregister (Some (m\<lparr>panicdata := Some ?pd'\<rparr>)) index
                 = Inr (0, Some (m\<lparr>panicdata := Some ?pd'\<rparr>))"
    using assms by (simp add: m4sensorhub_panic_unregister_def)
  have "cb_func \<noteq> 0 \<longrightarrow>
          m4sensorhub_panic_register (Some (m\<lparr>panicdata := Some ?pd'\<rparr>)) index cb_func dat
            = Inr (0, Some (m\<lparr>panicdata := Some ?pd''\<rparr>))
          \<and> funcs ?pd'' index = \<lparr>callback = cb_func, data = dat\<rparr>
          \<and> (\<forall>j. j \<noteq> index \<longrightarrow> funcs ?pd'' j = funcs pd j)"
    using assms by (simp add: m4sensorhub_panic_register_def)
  then have reg: "cb_func \<noteq> 0 \<longrightarrow>
                (\<exists>pd''. m4sensorhub_panic_register (Some (m\<lparr>panicdata := Some ?pd'\<rparr>))
                            index cb_func dat
                          = Inr (0, Some (m\<lparr>panicdata := Some pd''\<rparr>))
                   \<and> funcs pd'' index = \<lparr>callback = cb_func, data = dat\<rparr>
                   \<and> (\<forall>j. j \<noteq> index \<longrightarrow> funcs pd'' j = funcs pd j))"
    by blast
  from first slot others again reg show ?thesis
    by (intro exI [of _ ?pd']) blast
qed

theorem panic_unregister_clears_slot_witness:
  "(1::nat) < PANICHDL_MAX \<and> panicdata hub_both = Some pd_both \<and> populated pd_both 1
   \<and> (19::nat) \<noteq> 0
   \<and> m4sensorhub_panic_unregister (Some hub_both) 1
       = Inr (0, Some (hub_both\<lparr>panicdata := Some (pd_both\<lparr>funcs :=
            (funcs pd_both)(1 := \<lparr>callback = 0, data = 0\<rparr>)\<rparr>)\<rparr>))
   \<and> m4sensorhub_panic_register
         (Some (hub_both\<lparr>panicdata := Some (pd_both\<lparr>funcs :=
            (funcs pd_both)(1 := \<lparr>callback = 0, data = 0\<rparr>)\<rparr>)\<rparr>)) 1 19 35
       = Inr (0, Some (hub_both\<lparr>panicdata := Some (pd_both\<lparr>funcs :=
            (funcs pd_both)(1 := \<lparr>callback = 19, data = 35\<rparr>)\<rparr>)\<rparr>))"
  using panic_unregister_clears_slot [of 1 hub_both pd_both 19 35]
  by (simp add: m4sensorhub_panic_unregister_def m4sensorhub_panic_register_def hub_both_def
      pd_both_def populated_def PANICHDL_MAX_def PANICHDL_IRQ_RESTORE_def)

lemma register_returns:
  "panicdata m \<noteq> None \<Longrightarrow>
   \<exists>r m'. m4sensorhub_panic_register (Some m) index cb_func dat = Inr (r, Some m')"
  by (auto simp: m4sensorhub_panic_register_def)

lemma unregister_returns:
  "panicdata m \<noteq> None \<Longrightarrow>
   \<exists>r m'. m4sensorhub_panic_unregister (Some m) index = Inr (r, Some m')"
  by (auto simp: m4sensorhub_panic_unregister_def)

text \<open>
  When no callback sets \<open>panicdata\<close> to \<open>NULL\<close> (in particular none runs
  \<open>m4sensorhub_panic_shutdown\<close>), the calls of the panic module keep it set.
\<close>

lemma panic_handlers_keep_panicdata:
  "\<forall>f h d. panicdata h \<noteq> None \<longrightarrow> panicdata (cb f h d) \<noteq> None \<Longrightarrow>
   panicdata m \<noteq> None \<Longrightarrow>
   \<exists>oc tr' m'. panic_handlers cb i tr m = (oc, tr', Some m') \<and> panicdata m' \<noteq> None"
proof (induction cb i tr m rule: panic_handlers.induct)
  case (1 cb i tr m)
  from "1.prems"(2) obtain pd where pd: "panicdata m = Some pd"
    by blast
  show ?case
  proof (cases "i < PANICHDL_MAX")
    case False
    with "1.prems"(2) show ?thesis
      by (subst panic_handlers.simps) simp
  next
    case True
    show ?thesis
    proof (cases "callback (funcs pd i) \<noteq> 0")
      case True
      from "1.prems" have "panicdata (cb (callback (funcs pd i)) m (data (funcs pd i))) \<noteq> None"
        by blast
      from "1.IH"(1) [OF \<open>i < PANICHDL_MAX\<close> pd True "1.prems"(1) this]
        \<open>i < PANICHDL_MAX\<close> pd True
      show ?thesis
        by (subst panic_handlers.simps) simp
    next
      case False
      from "1.IH"(2) [OF \<open>i < PANICHDL_MAX\<close> pd False "1.prems"]
        \<open>i < PANICHDL_MAX\<close> pd False
      show ?thesis
        by (subst panic_handlers.simps) simp
    qed
  qed
qed

lemma process_keeps_panicdata:
  assumes "\<forall>f h d. panicdata h \<noteq> None \<longrightarrow> panicdata (cb f h d) \<noteq> None"
    and "panicdata m \<noteq> None"
  shows "\<exists>oc tr m'. m4sensorhub_panic_process cb resp fw_ret (Some m) = (oc, tr, Some m')
           \<and> panicdata m' \<noteq> None"
proof -
  from assms(2) obtain pd where pd: "panicdata m = Some pd"
    by blast
  from panic_handlers_keep_panicdata [OF assms]
  have loop: "\<And>tr. \<exists>oc tr' m'. panic_handlers cb 0 tr m = (oc, tr', Some m')
                       \<and> panicdata m' \<noteq> None" .
  from pd assms(2) loop show ?thesis
    by (auto simp: m4sensorhub_panic_process_def Let_def split: option.splits)
qed

lemma panic_call_keeps_panicdata:
  assumes "\<forall>f h d. panicdata h \<noteq> None \<longrightarrow> panicdata (cb f h d) \<noteq> None"
    and "panicdata m \<noteq> None" and "panic_call cb c m = (oc, m')"
  shows "panicdata m' \<noteq> None"
proof (cases c)
  case (Register index cb_func dat)
  with assms(2,3) show ?thesis
    by (auto simp: m4sensorhub_panic_register_def split: if_splits)
next
  case (Unregister index)
  with assms(2,3) show ?thesis
    by (auto simp: m4sensorhub_panic_unregister_def split: if_splits)
next
  case (Process resp fw_ret)
  from process_keeps_panicdata [OF assms(1,2), of resp fw_ret] Process assms(3)
  show ?thesis
    by auto
qed

lemma panic_calls_keep_panicdata:
  assumes "\<forall>f h d. panicdata h \<noteq> None \<longrightarrow> panicdata (cb f h d) \<noteq> None"
  shows "panicdata m \<noteq> None \<Longrightarrow> panic_calls cb cs m = (oc, m') \<Longrightarrow> panicdata m' \<noteq> None"
proof (induction cs arbitrary: m)
  case Nil
  then show ?case by simp
next
  case (Cons c cs)
  obtain oc1 m1 where step: "panic_call cb c m = (oc1, m1)"
    by (cases "panic_call cb c m")
  from panic_call_keeps_panicdata [OF assms Cons.prems(1) step]
  have m1: "panicdata m1 \<noteq> None" .
  show ?case
  proof (cases oc1)
    case Returned
    with step Cons.prems(2) have "panic_calls cb cs m1 = (oc, m')"
      by simp
    from Cons.IH [OF m1 this] show ?thesis .
  next
    case Halted
    with step Cons.prems(2) m1 show ?thesis
      by simp
  next
    case (Faulted e)
    with step Cons.prems(2) m1 show ?thesis
      by simp
  qed
qed

text \<open>
  C9. \<open>m4sensorhub_panic_register\<close> and \<open>m4sensorhub_panic_unregister\<close> return \<open>-EINVAL\<close>
  for a \<open>NULL\<close> hub pointer, for an index that is not below \<open>PANICHDL_MAX\<close> and (register)
  for a \<open>NULL\<close> callback; with these checks passed and \<open>panicdata\<close> \<open>NULL\<close> they
  dereference \<open>NULL\<close>. A successful \<open>m4sensorhub_panic_init\<close> sets \<open>panicdata\<close>, and
  \<open>m4sensorhub_panic_shutdown\<close> sets it to \<open>NULL\<close>. In between, when no callback clears
  \<open>panicdata\<close>: after every run of register, unregister and process calls that has
  returned, \<open>panicdata\<close> is set, and a further register or unregister returns, so that no
  register or unregister call of such a run dereferences \<open>NULL\<close>.
  \<open>m4sensorhub_panic_process\<close> tests \<open>panicdata\<close> and returns with no action when it is
  \<open>NULL\<close>.
\<close>

theorem panic_register_unregister_need_panicdata:
  "m4sensorhub_panic_register None index cb_func dat = Inr (- EINVAL, None)
   \<and> m4sensorhub_panic_unregister None index = Inr (- EINVAL, None)
   \<and> (PANICHDL_MAX \<le> index \<longrightarrow>
        m4sensorhub_panic_register (Some m) index cb_func dat = Inr (- EINVAL, Some m)
        \<and> m4sensorhub_panic_unregister (Some m) index = Inr (- EINVAL, Some m))
   \<and> m4sensorhub_panic_register (Some m) index 0 dat = Inr (- EINVAL, Some m)
   \<and> (index < PANICHDL_MAX \<and> cb_func \<noteq> 0 \<and> panicdata m = None \<longrightarrow>
        m4sensorhub_panic_register (Some m) index cb_func dat = Inl NullDeref)
   \<and> (index < PANICHDL_MAX \<and> panicdata m = None \<longrightarrow>
        m4sensorhub_panic_unregister (Some m) index = Inl NullDeref)
   \<and> m4sensorhub_panic_init True m = (0, m\<lparr>panicdata := Some zeroed_panicdata\<rparr>)
   \<and> ((\<forall>f h d. panicdata h \<noteq> None \<longrightarrow> panicdata (cb f h d) \<noteq> None) \<and>
       panic_calls cb cs (snd (m4sensorhub_panic_init True m)) = (Returned, m') \<longrightarrow>
         panicdata m' \<noteq> None
         \<and> (\<exists>r m''. m4sensorhub_panic_register (Some m') index cb_func dat = Inr (r, Some m''))
         \<and> (\<exists>r m''. m4sensorhub_panic_unregister (Some m') index = Inr (r, Some m'')))
   \<and> (\<exists>m'. m4sensorhub_panic_shutdown (Some m) = Some m' \<and> panicdata m' = None)
   \<and> (panicdata m = None \<longrightarrow>
        m4sensorhub_panic_process cb resp fw_ret (Some m) = (Returned, [], Some m))
   \<and> m4sensorhub_panic_process cb resp fw_ret None = (Returned, [], None)"
proof -
  have checks:
    "m4sensorhub_panic_register None index cb_func dat = Inr (- EINVAL, None)"
    "m4sensorhub_panic_unregister None index = Inr (- EINVAL, None)"
    "PANICHDL_MAX \<le> index \<longrightarrow>
        m4sensorhub_panic_register (Some m) index cb_func dat = Inr (- EINVAL, Some m)
        \<and> m4sensorhub_panic_unregister (Some m) index = Inr (- EINVAL, Some m)"
    "m4sensorhub_panic_register (Some m) index 0 dat = Inr (- EINVAL, Some m)"
    by (simp_all add: m4sensorhub_panic_register_def m4sensorhub_panic_unregister_def)
  have null:
    "index < PANICHDL_MAX \<and> cb_func \<noteq> 0 \<and> panicdata m = None \<longrightarrow>
        m4sensorhub_panic_register (Some m) index cb_func dat = Inl NullDeref"
    "index < PANICHDL_MAX \<and> panicdata m = None \<longrightarrow>
        m4sensorhub_panic_unregister (Some m) index = Inl NullDeref"
    by (simp_all add: m4sensorhub_panic_register_def m4sensorhub_panic_unregister_def)
  have init: "m4sensorhub_panic_init True m = (0, m\<lparr>panicdata := Some zeroed_panicdata\<rparr>)"
    by (simp add: m4sensorhub_panic_init_def)
  then have set: "panicdata (snd (m4sensorhub_panic_init True m)) \<noteq> None"
    by simp
  have in_use:
    "(\<forall>f h d. panicdata h \<noteq> None \<longrightarrow> panicdata (cb f h d) \<noteq> None) \<and>
       panic_calls cb cs (snd (m4sensorhub_panic_init True m)) = (Returned, m') \<longrightarrow>
         panicdata m' \<noteq> None
         \<and> (\<exists>r m''. m4sensorhub_panic_register (Some m') index cb_func dat = Inr (r, Some m''))
         \<and> (\<exists>r m''. m4sensorhub_panic_unregister (Some m') index = Inr (r, Some m''))"
  proof
    assume run: "(\<forall>f h d. panicdata h \<noteq> None \<longrightarrow> panicdata (cb f h d) \<noteq> None) \<and>
       panic_calls cb cs (snd (m4sensorhub_panic_init True m)) = (Returned, m')"
    then have "panicdata m' \<noteq> None"
      using panic_calls_keep_panicdata [of cb "snd (m4sensorhub_panic_init True m)" cs Returned m']
        set
      by blast
    then show "panicdata m' \<noteq> None
         \<and> (\<exists>r m''. m4sensorhub_panic_register (Some m') index cb_func dat = Inr (r, Some m''))
         \<and> (\<exists>r m''. m4sensorhub_panic_unregister (Some m') index = Inr (r, Some m''))"
      using register_returns [of m' index cb_func dat] unregister_returns [of m' index]
      by blast
  qed
  have shutdown: "\<exists>m'. m4sensorhub_panic_shutdown (Some m) = Some m' \<and> panicdata m' = None"
    by (cases "panicdata m") (simp_all add: m4sensorhub_panic_shutdown_def)
  have process:
    "panicdata m = None \<longrightarrow>
        m4sensorhub_panic_process cb resp fw_ret (Some m) = (Returned, [], Some m)"
    "m4sensorhub_panic_process cb resp fw_ret None = (Returned, [], None)"
    by (simp_all add: m4sensorhub_panic_process_def)
  from checks null init in_use shutdown process show ?thesis
    by blast
qed

theorem panic_register_unregister_need_panicdata_witness:
  "panicdata hub_no_panicdata = None
   \<and> m4sensorhub_panic_register (Some hub_no_panicdata) 0 16 32 = Inl NullDeref
   \<and> m4sensorhub_panic_unregister (Some hub_no_panicdata) 0 = Inl NullDeref
   \<and> m4sensorhub_panic_register (Some hub_no_panicdata) 2 16 32
       = Inr (- 22, Some hub_no_panicdata)
   \<and> m4sensorhub_panic_process cb_sets_normal (4, 0xDEADBEEF) 0 (Some hub_no_panicdata)
       = (Returned, [], Some hub_no_panicdata)
   \<and> m4sensorhub_panic_init True hub_no_panicdata = (0, hub_init)
   \<and> panic_calls cb_sets_normal
         [Register 0 16 32, Process (4, 0xDEADBEEF) 0, Unregister 0, Register 1 17 33]
         hub_init
       = (Returned,
          hub_init\<lparr>panicdata := Some (zeroed_panicdata\<lparr>funcs :=
            (funcs zeroed_panicdata)
              (0 := \<lparr>callback = 0, data = 0\<rparr>, 1 := \<lparr>callback = 17, data = 33\<rparr>)\<rparr>),
            mode := NORMALMODE\<rparr>)
   \<and> panicdata (hub_init\<lparr>panicdata := Some (zeroed_panicdata\<lparr>funcs :=
            (funcs zeroed_panicdata)
              (0 := \<lparr>callback = 0, data = 0\<rparr>, 1 := \<lparr>callback = 17, data = 33\<rparr>)\<rparr>),
            mode := NORMALMODE\<rparr>) \<noteq> None
   \<and> m4sensorhub_panic_register
         (Some (hub_init\<lparr>panicdata := Some (zeroed_panicdata\<lparr>funcs :=
            (funcs zeroed_panicdata)
              (0 := \<lparr>callback = 0, data = 0\<rparr>, 1 := \<lparr>callback = 17, data = 33\<rparr>)\<rparr>),
            mode := NORMALMODE\<rparr>)) 0 16 32
       = Inr (0, Some (hub_init\<lparr>panicdata := Some (zeroed_panicdata\<lparr>funcs :=
            (funcs zeroed_panicdata)
              (0 := \<lparr>callback = 16, data = 32\<rparr>, 1 := \<lparr>callback = 17, data = 33\<rparr>)\<rparr>),
            mode := NORMALMODE\<rparr>))"
proof -
  let ?cs = "[Register 0 16 32, Process (4, 0xDEADBEEF) 0, Unregister 0, Register 1 17 33]"
  let ?m' = "hub_init\<lparr>panicdata := Some (zeroed_panicdata\<lparr>funcs :=
            (funcs zeroed_panicdata)
              (0 := \<lparr>callback = 0, data = 0\<rparr>, 1 := \<lparr>callback = 17, data = 33\<rparr>)\<rparr>),
            mode := NORMALMODE\<rparr>"
  have init: "m4sensorhub_panic_init True hub_no_panicdata = (0, hub_init)"
    by (simp add: m4sensorhub_panic_init_def hub_no_panicdata_def hub_init_def)
  have keep: "\<forall>f h d. panicdata h \<noteq> None \<longrightarrow> panicdata (cb_sets_normal f h d) \<noteq> None"
    by (simp add: cb_sets_normal_def)
  have run: "panic_calls cb_sets_normal ?cs hub_init = (Returned, ?m')"
    by (simp add: m4sensorhub_panic_register_def m4sensorhub_panic_unregister_def
        m4sensorhub_panic_process_def panic_handlers.simps cb_sets_normal_def hub_init_def
        zeroed_panicdata_def board_def PANICHDL_MAX_def PANICHDL_IRQ_RESTORE_def
        PANIC_RESP_CHECK_def)
  then have run': "panic_calls cb_sets_normal ?cs (snd (m4sensorhub_panic_init True hub_no_panicdata))
                     = (Returned, ?m')"
    by (simp add: init)
  from panic_register_unregister_need_panicdata
         [of 0 16 32 hub_no_panicdata cb_sets_normal ?cs ?m' "(4, 0xDEADBEEF)" 0]
       keep run'
  have set: "panicdata ?m' \<noteq> None"
    by blast
  have null: "panicdata hub_no_panicdata = None"
    "m4sensorhub_panic_register (Some hub_no_panicdata) 0 16 32 = Inl NullDeref"
    "m4sensorhub_panic_unregister (Some hub_no_panicdata) 0 = Inl NullDeref"
    "m4sensorhub_panic_register (Some hub_no_panicdata) 2 16 32
       = Inr (- 22, Some hub_no_panicdata)"
    "m4sensorhub_panic_process cb_sets_normal (4, 0xDEADBEEF) 0 (Some hub_no_panicdata)
       = (Returned, [], Some hub_no_panicdata)"
    by (simp_all add: m4sensorhub_panic_register_def m4sensorhub_panic_unregister_def
        m4sensorhub_panic_process_def hub_no_panicdata_def PANICHDL_MAX_def
        PANICHDL_IRQ_RESTORE_def EINVAL_def)
  have again: "m4sensorhub_panic_register (Some ?m') 0 16 32
       = Inr (0, Some (hub_init\<lparr>panicdata := Some (zeroed_panicdata\<lparr>funcs :=
            (funcs zeroed_panicdata)
              (0 := \<lparr>callback = 16, data = 32\<rparr>, 1 := \<lparr>callback = 17, data = 33\<rparr>)\<rparr>),
            mode := NORMALMODE\<rparr>))"
    by (simp add: m4sensorhub_panic_register_def hub_init_def zeroed_panicdata_def
        PANICHDL_MAX_def PANICHDL_IRQ_RESTORE_def fun_upd_twist)
  from null init run set again show ?thesis
    by blast
qed

section \<open>Init-call registry\<close>

lemma objs_kfree: "objs (kfree a s) = objs s"
  by (simp add: kfree_def)

lemma inithead_kfree: "inithead (kfree a s) = inithead s"
  by (simp add: kfree_def)

lemma init_list_store_upd:
  "a \<notin> fst ` set rs \<Longrightarrow> init_list (h(a \<mapsto> v)) p rs = init_list h p rs"
  by (induction rs arbitrary: p) (auto split: option.splits)

lemma init_list_det: "init_list h p rs \<Longrightarrow> init_list h p rs' \<Longrightarrow> rs = rs'"
proof (induction rs arbitrary: p rs')
  case Nil
  then show ?case
    by (cases rs') auto
next
  case (Cons r rs)
  from Cons.prems(1) obtain n where n: "p = fst r" "p \<noteq> 0" "h p = Some n"
    "initcb n = fst (snd r)" "pdata n = snd (snd r)" "init_list h (nxt n) rs"
    by (auto split: option.splits)
  from Cons.prems(2) n(2) obtain r' rs'' where rs': "rs' = r' # rs''"
    by (cases rs') auto
  with Cons.prems(2) n have r': "fst r' = fst r" "fst (snd r') = fst (snd r)"
    "snd (snd r') = snd (snd r)" "init_list h (nxt n) rs''"
    by auto
  from r'(1-3) have "r' = r"
    by (simp add: prod_eq_iff)
  moreover from Cons.IH [OF n(6) r'(4)] have "rs = rs''" .
  ultimately show ?case
    using rs' by simp
qed

lemma init_list_suffix: "init_list h p (xs @ r # ys) \<Longrightarrow> init_list h (fst r) (r # ys)"
proof (induction xs arbitrary: p)
  case Nil
  then show ?case
    by auto
next
  case (Cons x xs)
  from Cons.prems obtain n :: init_call where "init_list h (nxt n) (xs @ r # ys)"
    by (auto split: option.splits)
  then show ?case
    by (rule Cons.IH)
qed

lemma init_list_distinct: "init_list h p rs \<Longrightarrow> distinct (map fst rs)"
proof (induction rs arbitrary: p)
  case Nil
  then show ?case by simp
next
  case (Cons r rs)
  from Cons.prems obtain n where n: "p = fst r" "h p = Some n" "init_list h (nxt n) rs"
    by (auto split: option.splits)
  have "fst r \<notin> fst ` set rs"
  proof
    assume "fst r \<in> fst ` set rs"
    then obtain r' where "r' \<in> set rs" and same: "fst r' = fst r"
      by auto
    then obtain xs ys where split: "rs = xs @ r' # ys"
      by (auto dest: split_list)
    with n(3) have "init_list h (fst r') (r' # ys)"
      by (auto dest: init_list_suffix)
    with same n(1) have "init_list h p (r' # ys)"
      by simp
    from init_list_det [OF Cons.prems this] have "rs = ys"
      by simp
    with split show False
      by simp
  qed
  with Cons.IH [OF n(3)] show ?case
    by simp
qed

lemma node_at:
  assumes "init_list h p (r # ys)"
  shows "\<exists>n. h (fst r) = Some n \<and> initcb n = fst (snd r) \<and> pdata n = snd (snd r)
            \<and> nxt n = next_of ys \<and> init_list h (nxt n) ys \<and> fst r \<noteq> 0 \<and> p = fst r"
proof -
  from assms obtain n :: init_call where n: "p = fst r" "p \<noteq> 0" "h p = Some n"
    "initcb n = fst (snd r)" "pdata n = snd (snd r)" "init_list h (nxt n) ys"
    by (auto split: option.splits)
  from n(6) have "nxt n = next_of ys"
    by (cases ys) (simp_all add: next_of_def)
  with n show ?thesis
    by auto
qed

lemma last_node:
  "init_list h p (xs @ r # ys) \<Longrightarrow> xs \<noteq> [] \<Longrightarrow>
   \<exists>n. h (fst (last xs)) = Some n \<and> initcb n = fst (snd (last xs))
      \<and> pdata n = snd (snd (last xs)) \<and> nxt n = fst r \<and> fst (last xs) \<noteq> 0"
proof (induction xs arbitrary: p)
  case Nil
  then show ?case by simp
next
  case (Cons x xs)
  show ?case
  proof (cases "xs = []")
    case True
    with Cons.prems(1) show ?thesis
      by (auto split: option.splits)
  next
    case False
    from Cons.prems(1) obtain n :: init_call where "init_list h (nxt n) (xs @ r # ys)"
      by (auto split: option.splits)
    from Cons.IH [OF this False] False show ?thesis
      by simp
  qed
qed




lemma drain_list:
  assumes "init_list (objs s) p rs" and "\<forall>r \<in> set rs. fst (snd r) \<noteq> 0"
  shows "initcall_drain cbret p tr s
           = Some (Inr (tr @ concat (map (node_events cbret) rs),
                        s\<lparr>freed := freed s \<union> fst ` set rs,
                          refreed := refreed s \<union> (fst ` set rs \<inter> freed s)\<rparr>))"
  using assms
proof (induction rs arbitrary: p tr s)
  case Nil
  then show ?case
    by (subst initcall_drain.simps) simp
next
  case (Cons r rs)
  obtain a f d where r: "r = (a, f, d)"
    by (cases r)
  from Cons.prems r obtain n where n: "p = a" "a \<noteq> 0" "objs s a = Some n"
    "initcb n = f" "pdata n = d" "init_list (objs s) (nxt n) rs" "f \<noteq> 0"
    by (auto split: option.splits)
  from init_list_distinct [OF Cons.prems(1)] r have fresh: "a \<notin> fst ` set rs"
    by simp
  from n(6) have tail: "init_list (objs (kfree a s)) (nxt n) rs"
    by (simp add: objs_kfree)
  from Cons.prems(2) have cbs: "\<forall>r \<in> set rs. fst (snd r) \<noteq> 0"
    by simp
  have "initcall_drain cbret p tr s
          = initcall_drain cbret (nxt n)
              (tr @ [InitCall f d] @ (if cbret f d < 0 then [DumpStack] else []) @ [Kfree a])
              (kfree a s)"
    using n by (subst initcall_drain.simps) simp
  also have "\<dots> = Some (Inr ((tr @ [InitCall f d] @ (if cbret f d < 0 then [DumpStack] else [])
                                  @ [Kfree a]) @ concat (map (node_events cbret) rs),
                            (kfree a s)\<lparr>freed := freed (kfree a s) \<union> fst ` set rs,
                                        refreed := refreed (kfree a s)
                                          \<union> (fst ` set rs \<inter> freed (kfree a s))\<rparr>))"
    using tail cbs by (rule Cons.IH)
  also have "(kfree a s)\<lparr>freed := freed (kfree a s) \<union> fst ` set rs,
                         refreed := refreed (kfree a s)
                           \<union> (fst ` set rs \<inter> freed (kfree a s))\<rparr>
             = s\<lparr>freed := freed s \<union> fst ` set (r # rs),
                  refreed := refreed s \<union> (fst ` set (r # rs) \<inter> freed s)\<rparr>"
  proof (cases "a \<in> freed s")
    case True
    then have "freed s \<union> fst ` set rs = freed s \<union> insert a (fst ` set rs)"
      and "insert a (refreed s) \<union> (fst ` set rs \<inter> freed s)
             = refreed s \<union> (insert a (fst ` set rs) \<inter> freed s)"
      by auto
    with True r show ?thesis
      by (simp add: kfree_def)
  next
    case False
    with fresh have "insert a (freed s) \<union> fst ` set rs = freed s \<union> insert a (fst ` set rs)"
      and "refreed s \<union> (fst ` set rs \<inter> insert a (freed s))
             = refreed s \<union> (insert a (fst ` set rs) \<inter> freed s)"
      by auto
    with False r show ?thesis
      by (simp add: kfree_def)
  qed
  finally show ?case
    using r by (simp add: node_events_def)
qed




lemma initialize_drains:
  assumes "init_list (objs s) (inithead s) rs" and "\<forall>r \<in> set rs. fst (snd r) \<noteq> 0"
    and "i2c_client (m4sensorhub_misc_data s) = Some c"
    and "0 \<le> load_ret" and "0 \<le> irq_ret"
  shows "m4sensorhub_initialize True load_ret irq_ret cbret s
           = Some (Inr ([load_event c, IrqInit] @ concat (map (node_events cbret) rs),
                        s\<lparr>firmware_download_status := load_ret,
                          freed := freed s \<union> fst ` set rs,
                          refreed := refreed s \<union> (fst ` set rs \<inter> freed s),
                          m4sensorhub_misc_data :=
                            (m4sensorhub_misc_data s)\<lparr>mode := NORMALMODE\<rparr>\<rparr>))"
proof -
  let ?s1 = "s\<lparr>firmware_download_status := load_ret\<rparr>"
  from assms(1) have "init_list (objs ?s1) (inithead s) rs"
    by simp
  from drain_list [OF this assms(2), of cbret "[load_event c, IrqInit]"] assms(3-5)
  show ?thesis
    by (simp add: m4sensorhub_initialize_def)
qed

text \<open>
  Unregistering a callback that one node of the list carries, and no other: the loop walks to
  the node, unlinks it from \<open>inithead\<close> or from the node before it, frees it, and walks on
  to the end.
\<close>

lemma unregister_loop_no_match:
  "init_list (objs s) p rs \<Longrightarrow> f \<notin> (\<lambda>r. fst (snd r)) ` set rs \<Longrightarrow>
   unregister_loop f p prev s = Some (Inr s)"
proof (induction rs arbitrary: p prev)
  case Nil
  then show ?case
    by (subst unregister_loop.simps) simp
next
  case (Cons r rs)
  from Cons.prems obtain n where n: "p \<noteq> 0" "objs s p = Some n" "initcb n \<noteq> f"
    "init_list (objs s) (nxt n) rs"
    by (auto split: option.splits)
  from Cons.prems(2) have "f \<notin> (\<lambda>r. fst (snd r)) ` set rs"
    by simp
  from Cons.IH [OF n(4) this, of p] n(1-3) show ?case
    by (subst unregister_loop.simps) simp
qed

lemma unregister_loop_walk:
  "init_list (objs s) p (xs @ r # ys) \<Longrightarrow> f \<notin> (\<lambda>r. fst (snd r)) ` set xs \<Longrightarrow>
   unregister_loop f p prev s
     = unregister_loop f (fst r) (if xs = [] then prev else fst (last xs)) s"
proof (induction xs arbitrary: p prev)
  case Nil
  then show ?case
    by simp
next
  case (Cons x xs)
  from Cons.prems obtain n where n: "p = fst x" "p \<noteq> 0" "objs s p = Some n" "initcb n \<noteq> f"
    "init_list (objs s) (nxt n) (xs @ r # ys)"
    by (auto split: option.splits)
  from Cons.prems(2) have "f \<notin> (\<lambda>r. fst (snd r)) ` set xs"
    by simp
  from Cons.IH [OF n(5) this, of p]
  have "unregister_loop f (nxt n) p s
          = unregister_loop f (fst r) (if xs = [] then p else fst (last xs)) s" .
  moreover have "unregister_loop f p prev s = unregister_loop f (nxt n) p s"
    using n(2-4) by (subst unregister_loop.simps) simp
  ultimately show ?case
    using n(1) by simp
qed

lemma unregister_single:
  assumes list: "init_list (objs s) (inithead s) (xs @ (a, f, d) # ys)"
    and only: "f \<notin> (\<lambda>r. fst (snd r)) ` (set xs \<union> set ys)"
  shows "m4sensorhub_unregister_initcall f s
           = Some (Inr (kfree a
               (if xs = [] then s\<lparr>inithead := next_of ys\<rparr>
                else s\<lparr>objs := (objs s)(fst (last xs) \<mapsto>
                        \<lparr>initcb = fst (snd (last xs)), pdata = snd (snd (last xs)),
                         nxt = next_of ys\<rparr>)\<rparr>)))"
proof -
  from init_list_distinct [OF list]
  have dist: "a \<notin> fst ` set xs" "a \<notin> fst ` set ys" "fst ` set xs \<inter> fst ` set ys = {}"
    by auto
  from init_list_suffix [OF list] have "init_list (objs s) a ((a, f, d) # ys)"
    by simp
  from node_at [OF this] obtain n where n: "objs s a = Some n" "initcb n = f"
    "nxt n = next_of ys" "init_list (objs s) (nxt n) ys" "a \<noteq> 0"
    by auto
  from only have no_xs: "f \<notin> (\<lambda>r. fst (snd r)) ` set xs"
    and no_ys: "f \<notin> (\<lambda>r. fst (snd r)) ` set ys"
    by auto
  from unregister_loop_walk [OF list no_xs, of 0]
  have walk: "m4sensorhub_unregister_initcall f s
                = unregister_loop f a (if xs = [] then 0 else fst (last xs)) s"
    by (simp add: m4sensorhub_unregister_initcall_def)
  show ?thesis
  proof (cases "xs = []")
    case True
    with list have head: "inithead s = a"
      by simp
    let ?s1 = "kfree a (s\<lparr>inithead := nxt n\<rparr>)"
    have "init_list (objs ?s1) (nxt n) ys"
      using n(4) by (simp add: objs_kfree)
    from unregister_loop_no_match [OF this no_ys, of a]
    have rest: "unregister_loop f (nxt n) a ?s1 = Some (Inr ?s1)" .
    have "unregister_loop f a 0 s = unregister_loop f (nxt n) a ?s1"
      using n(1,2,5) head by (subst unregister_loop.simps) (simp add: objs_kfree)
    with rest walk True n(3) show ?thesis
      by simp
  next
    case False
    let ?q = "fst (last xs)"
    from last_node [OF list False] obtain pn where pn: "objs s ?q = Some pn"
      "initcb pn = fst (snd (last xs))" "pdata pn = snd (snd (last xs))" "?q \<noteq> 0"
      by auto
    from False have q_in: "?q \<in> fst ` set xs"
      by simp
    with dist have q: "?q \<noteq> a" "?q \<notin> fst ` set ys"
      by auto
    from list False have "inithead s = fst (hd xs)"
      by (cases xs) auto
    with False dist(1) have not_head: "a \<noteq> inithead s"
      by (cases xs) auto
    let ?s1 = "kfree a (s\<lparr>objs := (objs s)(?q \<mapsto> pn\<lparr>nxt := nxt n\<rparr>)\<rparr>)"
    have "init_list (objs ?s1) (nxt n) ys"
      using n(4) q(2) by (simp add: objs_kfree init_list_store_upd)
    from unregister_loop_no_match [OF this no_ys, of a]
    have rest: "unregister_loop f (nxt n) a ?s1 = Some (Inr ?s1)" .
    have "unregister_loop f a ?q s = unregister_loop f (nxt n) a ?s1"
      using n(1,2,5) not_head pn(1,4) q(1)
      by (subst unregister_loop.simps) (simp add: objs_kfree)
    moreover have "pn\<lparr>nxt := nxt n\<rparr>
                     = \<lparr>initcb = fst (snd (last xs)), pdata = snd (snd (last xs)),
                        nxt = next_of ys\<rparr>"
      using pn(2,3) n(3) by (cases pn) simp
    ultimately show ?thesis
      using rest walk False by simp
  qed
qed




text \<open>
  C7 fails on the code. Register \<open>f = 7\<close>, \<open>f = 7\<close> and \<open>g = 9\<close>, in this order, so that the
  list is \<open>g, f, f\<close>, and unregister \<open>f\<close>. The loop frees both \<open>f\<close> nodes (reading
  \<open>node->next\<close> from each after its \<open>kfree\<close>), but for the second one \<open>prev\<close> is the first,
  already freed, \<open>f\<close> node: the code unlinks the second node from that freed node, and
  \<open>g->next\<close> keeps pointing to the second \<open>f\<close> node. The list reached from \<open>inithead\<close>
  still holds a node with callback \<open>f\<close>, and this node is freed.
\<close>

theorem unregister_initcall_leaves_freed_node_linked:
  "init_list (objs (register_all [(1, 7, 100), (2, 7, 200), (3, 9, 300)] module_loaded))
       (inithead (register_all [(1, 7, 100), (2, 7, 200), (3, 9, 300)] module_loaded))
       [(3, 9, 300), (2, 7, 200), (1, 7, 100)]
   \<and> m4sensorhub_unregister_initcall 7
        (register_all [(1, 7, 100), (2, 7, 200), (3, 9, 300)] module_loaded)
      = Some (Inr
          (module_loaded
             \<lparr>objs := [1 \<mapsto> \<lparr>initcb = 7, pdata = 100, nxt = 0\<rparr>,
                       2 \<mapsto> \<lparr>initcb = 7, pdata = 200, nxt = 0\<rparr>,
                       3 \<mapsto> \<lparr>initcb = 9, pdata = 300, nxt = 1\<rparr>],
              freed := {1, 2},
              inithead := 3\<rparr>))
   \<and> init_list [1 \<mapsto> \<lparr>initcb = 7, pdata = 100, nxt = 0\<rparr>,
                 2 \<mapsto> \<lparr>initcb = 7, pdata = 200, nxt = 0\<rparr>,
                 3 \<mapsto> \<lparr>initcb = 9, pdata = 300, nxt = 1\<rparr>] 3
        [(3, 9, 300), (1, 7, 100)]"
  by (simp add: m4sensorhub_unregister_initcall_def unregister_loop.simps
      m4sensorhub_register_initcall_def module_loaded_def kfree_def fun_upd_twist insert_commute)

text \<open>
  Where no two nodes with the callback follow each other, the same loop unlinks as intended:
  from the list \<open>9, 8, 7\<close> the node with callback \<open>8\<close> is unlinked and freed, the other
  two stay.
\<close>

lemma unregister_initcall_single_node:
  "m4sensorhub_unregister_initcall 8
        (register_all [(1, 7, 100), (2, 8, 200), (3, 9, 300)] module_loaded)
      = Some (Inr
          (module_loaded
             \<lparr>objs := [1 \<mapsto> \<lparr>initcb = 7, pdata = 100, nxt = 0\<rparr>,
                       2 \<mapsto> \<lparr>initcb = 8, pdata = 200, nxt = 1\<rparr>,
                       3 \<mapsto> \<lparr>initcb = 9, pdata = 300, nxt = 1\<rparr>],
              freed := {2},
              inithead := 3\<rparr>))
   \<and> init_list [1 \<mapsto> \<lparr>initcb = 7, pdata = 100, nxt = 0\<rparr>,
                 2 \<mapsto> \<lparr>initcb = 8, pdata = 200, nxt = 1\<rparr>,
                 3 \<mapsto> \<lparr>initcb = 9, pdata = 300, nxt = 1\<rparr>] 3
        [(3, 9, 300), (1, 7, 100)]"
  by (simp add: m4sensorhub_unregister_initcall_def unregister_loop.simps
      m4sensorhub_register_initcall_def module_loaded_def kfree_def fun_upd_twist)

text \<open>
  C10. When \<open>m4sensorhub_initialize\<close> reaches the drain (the I2C client is linked, the
  firmware is there, the load and the IRQ init do not fail) and has run it over a list,
  every node of the list is freed, and \<open>inithead\<close> and the objects are as before:
  \<open>inithead\<close> still leads through the same, now freed, nodes, and for a list that was not
  empty it is a dangling pointer. A registration after the drain links its new node to
  that old head. An unregistration after the drain walks the freed nodes from the old head:
  for a callback that one node carries and no other, it unlinks that node, by a write to
  \<open>inithead\<close> or to the freed node before it, and frees it a second time.
\<close>

theorem initialize_keeps_inithead:
  assumes "init_list (objs s) (inithead s) rs" and "\<forall>r \<in> set rs. fst (snd r) \<noteq> 0"
    and "i2c_client (m4sensorhub_misc_data s) = Some c"
    and "0 \<le> load_ret" and "0 \<le> irq_ret"
  shows "\<exists>tr s'. m4sensorhub_initialize True load_ret irq_ret cbret s = Some (Inr (tr, s'))
           \<and> inithead s' = inithead s
           \<and> objs s' = objs s
           \<and> init_list (objs s') (inithead s') rs
           \<and> fst ` set rs \<subseteq> freed s'
           \<and> (rs \<noteq> [] \<longrightarrow> inithead s' \<noteq> 0 \<and> inithead s' \<in> freed s')
           \<and> (\<forall>inc f d. inc \<noteq> 0 \<longrightarrow>
                 (\<exists>n. objs (snd (m4sensorhub_register_initcall inc f d s')) inc = Some n
                    \<and> nxt n = inithead s))
           \<and> (\<forall>xs a f d ys.
                 rs = xs @ (a, f, d) # ys \<and> f \<notin> (\<lambda>r. fst (snd r)) ` (set xs \<union> set ys) \<longrightarrow>
                   a \<in> freed s'
                   \<and> m4sensorhub_unregister_initcall f s'
                       = Some (Inr
                           (if xs = []
                            then s'\<lparr>inithead := next_of ys, refreed := insert a (refreed s')\<rparr>
                            else s'\<lparr>objs := (objs s')(fst (last xs) \<mapsto>
                                      \<lparr>initcb = fst (snd (last xs)), pdata = snd (snd (last xs)),
                                       nxt = next_of ys\<rparr>),
                                    refreed := insert a (refreed s')\<rparr>))
                   \<and> (xs \<noteq> [] \<longrightarrow> fst (last xs) \<in> freed s'))"
proof -
  let ?tr = "[load_event c, IrqInit] @ concat (map (node_events cbret) rs)"
  let ?s' = "s\<lparr>firmware_download_status := load_ret,
                freed := freed s \<union> fst ` set rs,
                refreed := refreed s \<union> (fst ` set rs \<inter> freed s),
                m4sensorhub_misc_data := (m4sensorhub_misc_data s)\<lparr>mode := NORMALMODE\<rparr>\<rparr>"
  have run: "m4sensorhub_initialize True load_ret irq_ret cbret s = Some (Inr (?tr, ?s'))"
    using assms by (rule initialize_drains)
  have head: "inithead ?s' = inithead s" and store: "objs ?s' = objs s"
    by simp_all
  have list: "init_list (objs ?s') (inithead ?s') rs"
    using assms(1) by simp
  have freed: "fst ` set rs \<subseteq> freed ?s'"
    by simp
  have dangling: "rs \<noteq> [] \<longrightarrow> inithead ?s' \<noteq> 0 \<and> inithead ?s' \<in> freed ?s'"
    using assms(1) by (cases rs) auto
  have reg: "\<forall>inc f d. inc \<noteq> 0 \<longrightarrow>
                 (\<exists>n. objs (snd (m4sensorhub_register_initcall inc f d ?s')) inc = Some n
                    \<and> nxt n = inithead s)"
    by (simp add: m4sensorhub_register_initcall_def)
  have unreg: "\<forall>xs a f d ys.
                 rs = xs @ (a, f, d) # ys \<and> f \<notin> (\<lambda>r. fst (snd r)) ` (set xs \<union> set ys) \<longrightarrow>
                   a \<in> freed ?s'
                   \<and> m4sensorhub_unregister_initcall f ?s'
                       = Some (Inr
                           (if xs = []
                            then ?s'\<lparr>inithead := next_of ys, refreed := insert a (refreed ?s')\<rparr>
                            else ?s'\<lparr>objs := (objs ?s')(fst (last xs) \<mapsto>
                                      \<lparr>initcb = fst (snd (last xs)), pdata = snd (snd (last xs)),
                                       nxt = next_of ys\<rparr>),
                                    refreed := insert a (refreed ?s')\<rparr>))
                   \<and> (xs \<noteq> [] \<longrightarrow> fst (last xs) \<in> freed ?s')"
  proof (intro allI impI)
    fix xs a f d ys
    assume split: "rs = xs @ (a, f, d) # ys \<and> f \<notin> (\<lambda>r. fst (snd r)) ` (set xs \<union> set ys)"
    then have a: "a \<in> freed ?s'"
      by simp
    from split have last: "xs \<noteq> [] \<longrightarrow> fst (last xs) \<in> freed ?s'"
      by simp
    from split list have "init_list (objs ?s') (inithead ?s') (xs @ (a, f, d) # ys)"
      by simp
    from unregister_single [OF this] split
    have "m4sensorhub_unregister_initcall f ?s'
            = Some (Inr (kfree a
                (if xs = [] then ?s'\<lparr>inithead := next_of ys\<rparr>
                 else ?s'\<lparr>objs := (objs ?s')(fst (last xs) \<mapsto>
                         \<lparr>initcb = fst (snd (last xs)), pdata = snd (snd (last xs)),
                          nxt = next_of ys\<rparr>)\<rparr>)))"
      by blast
    with a have "m4sensorhub_unregister_initcall f ?s'
                       = Some (Inr
                           (if xs = []
                            then ?s'\<lparr>inithead := next_of ys, refreed := insert a (refreed ?s')\<rparr>
                            else ?s'\<lparr>objs := (objs ?s')(fst (last xs) \<mapsto>
                                      \<lparr>initcb = fst (snd (last xs)), pdata = snd (snd (last xs)),
                                       nxt = next_of ys\<rparr>),
                                    refreed := insert a (refreed ?s')\<rparr>))"
      by (simp add: kfree_def)
    with a last show "a \<in> freed ?s'
                   \<and> m4sensorhub_unregister_initcall f ?s'
                       = Some (Inr
                           (if xs = []
                            then ?s'\<lparr>inithead := next_of ys, refreed := insert a (refreed ?s')\<rparr>
                            else ?s'\<lparr>objs := (objs ?s')(fst (last xs) \<mapsto>
                                      \<lparr>initcb = fst (snd (last xs)), pdata = snd (snd (last xs)),
                                       nxt = next_of ys\<rparr>),
                                    refreed := insert a (refreed ?s')\<rparr>))
                   \<and> (xs \<noteq> [] \<longrightarrow> fst (last xs) \<in> freed ?s')"
      by blast
  qed
  from run head store list freed dangling reg unreg show ?thesis
    by (intro exI [of _ ?tr] exI [of _ ?s']) blast
qed

theorem initialize_keeps_inithead_witness:
  "init_list (objs (register_all [(1, 7, 100), (2, 8, 200)] probed))
       (inithead (register_all [(1, 7, 100), (2, 8, 200)] probed))
       [(2, 8, 200), (1, 7, 100)]
   \<and> i2c_client (m4sensorhub_misc_data (register_all [(1, 7, 100), (2, 8, 200)] probed))
       = Some \<lparr>addr = 0x18\<rparr>
   \<and> inithead (register_all [(1, 7, 100), (2, 8, 200)] probed) = 2
   \<and> (\<exists>tr s'. m4sensorhub_initialize True 0 0 (\<lambda>f d. 0)
                 (register_all [(1, 7, 100), (2, 8, 200)] probed) = Some (Inr (tr, s'))
           \<and> inithead s' = 2 \<and> 2 \<in> freed s' \<and> 1 \<in> freed s'
           \<and> m4sensorhub_unregister_initcall 7 s'
               = Some (Inr (s'\<lparr>objs := (objs s')(2 \<mapsto> \<lparr>initcb = 8, pdata = 200, nxt = 0\<rparr>),
                               refreed := insert 1 (refreed s')\<rparr>))
           \<and> m4sensorhub_unregister_initcall 8 s'
               = Some (Inr (s'\<lparr>inithead := 1, refreed := insert 2 (refreed s')\<rparr>)))"
proof -
  let ?s = "register_all [(1, 7, 100), (2, 8, 200)] probed"
  have list: "init_list (objs ?s) (inithead ?s) [(2, 8, 200), (1, 7, 100)]"
    and cbs: "\<forall>r \<in> set [(2, 8, 200), (1, 7, 100) :: ptr \<times> fnptr \<times> ptr]. fst (snd r) \<noteq> 0"
    and client: "i2c_client (m4sensorhub_misc_data ?s) = Some \<lparr>addr = 0x18\<rparr>"
    and head: "inithead ?s = 2"
    by (simp_all add: m4sensorhub_register_initcall_def probed_def module_loaded_def)
  from initialize_keeps_inithead [OF list cbs client, of 0 0 "\<lambda>f d. 0"]
  obtain tr s' where run:
    "m4sensorhub_initialize True 0 0 (\<lambda>f d. 0) ?s = Some (Inr (tr, s'))"
    "inithead s' = inithead ?s"
    "fst ` set [(2, 8, 200), (1, 7, 100) :: ptr \<times> fnptr \<times> ptr] \<subseteq> freed s'"
    and unreg: "\<forall>xs a f d ys.
       [(2, 8, 200), (1, 7, 100)] = xs @ (a, f, d) # ys
         \<and> f \<notin> (\<lambda>r. fst (snd r)) ` (set xs \<union> set ys) \<longrightarrow>
           a \<in> freed s'
           \<and> m4sensorhub_unregister_initcall f s'
               = Some (Inr
                   (if xs = []
                    then s'\<lparr>inithead := next_of ys, refreed := insert a (refreed s')\<rparr>
                    else s'\<lparr>objs := (objs s')(fst (last xs) \<mapsto>
                              \<lparr>initcb = fst (snd (last xs)), pdata = snd (snd (last xs)),
                               nxt = next_of ys\<rparr>),
                            refreed := insert a (refreed s')\<rparr>))
           \<and> (xs \<noteq> [] \<longrightarrow> fst (last xs) \<in> freed s')"
    by auto
  from unreg [rule_format, of "[(2, 8, 200)]" 1 7 100 "[]"]
  have u7: "m4sensorhub_unregister_initcall 7 s'
               = Some (Inr (s'\<lparr>objs := (objs s')(2 \<mapsto> \<lparr>initcb = 8, pdata = 200, nxt = 0\<rparr>),
                               refreed := insert 1 (refreed s')\<rparr>))"
    by (simp add: next_of_def)
  from unreg [rule_format, of "[]" 2 8 200 "[(1, 7, 100)]"]
  have u8: "m4sensorhub_unregister_initcall 8 s'
               = Some (Inr (s'\<lparr>inithead := 1, refreed := insert 2 (refreed s')\<rparr>))"
    by (simp add: next_of_def)
  from run head u7 u8 have "m4sensorhub_initialize True 0 0 (\<lambda>f d. 0) ?s = Some (Inr (tr, s'))
           \<and> inithead s' = 2 \<and> 2 \<in> freed s' \<and> 1 \<in> freed s'
           \<and> m4sensorhub_unregister_initcall 7 s'
               = Some (Inr (s'\<lparr>objs := (objs s')(2 \<mapsto> \<lparr>initcb = 8, pdata = 200, nxt = 0\<rparr>),
                               refreed := insert 1 (refreed s')\<rparr>))
           \<and> m4sensorhub_unregister_initcall 8 s'
               = Some (Inr (s'\<lparr>inithead := 1, refreed := insert 2 (refreed s')\<rparr>))"
    by simp
  then have "\<exists>tr s'. m4sensorhub_initialize True 0 0 (\<lambda>f d. 0) ?s = Some (Inr (tr, s'))
           \<and> inithead s' = 2 \<and> 2 \<in> freed s' \<and> 1 \<in> freed s'
           \<and> m4sensorhub_unregister_initcall 7 s'
               = Some (Inr (s'\<lparr>objs := (objs s')(2 \<mapsto> \<lparr>initcb = 8, pdata = 200, nxt = 0\<rparr>),
                               refreed := insert 1 (refreed s')\<rparr>))
           \<and> m4sensorhub_unregister_initcall 8 s'
               = Some (Inr (s'\<lparr>inithead := 1, refreed := insert 2 (refreed s')\<rparr>))"
    by blast
  with list client head show ?thesis
    by blast
qed

end
